theory Spec2Isabelle
  imports Main "HOL-Library.Word"
begin

unbundle bit_operations_syntax

section \<open>Data model of the block-copy engine\<close>

text \<open>
  Win32 integer types: \<open>DWORD\<close> is an unsigned 32-bit integer, \<open>LONGLONG\<close> a signed
  64-bit integer (read with \<open>sint\<close>, compared with \<open>\<le>s\<close> and \<open><s\<close>), \<open>int\<close> a signed
  32-bit integer. Arithmetic on words wraps around, as the atomics' \<open>fetch_add\<close> does.
\<close>

type_synonym DWORD = "32 word"
type_synonym LONGLONG = "64 word"
type_synonym cint = "32 word"

text \<open>Error codes of \<open>winerror.h\<close> that the sources compare against.\<close>

definition ERROR_SUCCESS :: DWORD where
  "ERROR_SUCCESS = 0"

definition ERROR_HANDLE_EOF :: DWORD where
  "ERROR_HANDLE_EOF = 38"

definition ERROR_GEN_FAILURE :: DWORD where
  "ERROR_GEN_FAILURE = 31"

text \<open>
  \<open>struct IOContext\<close> (IOUtils.h). The \<open>OVERLAPPED\<close> member is represented by its two
  offset words; \<open>hEvent\<close> is always stored as null and is left out. The pointer
  \<open>buf\<close> is represented by the address \<open>bufAddr\<close> (0 is the null pointer) and by the
  content \<open>buf\<close> of the memory it points to. \<open>curInst\<close> tells whether the back-pointer
  to the engine is non-null (there is one engine instance).
\<close>

record IOContext =
  Offset :: DWORD
  OffsetHigh :: DWORD
  bufAddr :: "64 word"
  buf :: "8 word list"
  bufSize :: DWORD
  completed :: bool
  readOffset :: LONGLONG
  bytesTransferred :: DWORD
  curInst :: bool

text \<open>The four atomics of \<open>class IOUtils\<close>.\<close>

record IOUtils =
  m_pendingIOs :: cint
  m_fileOffset :: LONGLONG
  m_readComplete :: bool
  m_errOccurred :: bool

text \<open>
  What the engine does to the outside world is recorded as a list of events, in program
  order: the calls of the operating system's primitives with the arguments that matter,
  and the warnings and errors sent to the logging sink (debug and info output is left
  out). \<open>MemsetOutOfRange\<close> marks a \<open>memset\<close> that would leave the context's buffer.
\<close>

datatype event =
    CreateFileW_src
  | CreateFileW_dest
  | QuerySize_src
  | QuerySize_dest
  | QuerySectorSize_dest
  | PromptUser
  | VirtualAlloc DWORD
  | CloseHandle_src
  | CloseHandle_dest
  | ReadFileEx DWORD DWORD DWORD
  | WriteFileEx DWORD DWORD DWORD
  | LaunchWorker nat
  | QueueUserAPC nat
  | JoinWorker nat
  | FlushFileBuffers
  | MemsetOutOfRange
  | LogWarning
  | LogError

text \<open>
  The immediate answer of \<open>ReadFileEx\<close> or \<open>WriteFileEx\<close>: the request was queued, or
  the call returned FALSE and \<open>GetLastError\<close> gives the code.
\<close>

datatype submit = Queued | Refused DWORD

section \<open>IOUtils.cpp\<close>

subsection \<open>IssueRead\<close>

text \<open>
  The claim step of \<open>IssueRead\<close>: the fetch-and-add on \<open>m_fileOffset\<close>, the end-of-source
  test and the computation of \<open>bytesToRead\<close>. It returns the new shared state, the claimed
  offset \<open>curOffset\<close> and the read length, \<open>None\<close> where the function returns false
  without a read. \<open>blockSize\<close> is converted to \<open>LONGLONG\<close> by zero extension. The sum
  \<open>curOffset + bytesToRead\<close> is a signed 64-bit sum; where it overflows (undefined in the
  source) the model wraps.
\<close>

definition IssueRead_claim ::
  "DWORD \<Rightarrow> LONGLONG \<Rightarrow> IOUtils \<Rightarrow> IOUtils \<times> LONGLONG \<times> DWORD option" where
  "IssueRead_claim blockSize totalFileSize u =
    (let curOffset = m_fileOffset u;
         u1 = u\<lparr>m_fileOffset := m_fileOffset u + ucast blockSize\<rparr>
     in if totalFileSize \<le>s curOffset
        then (u1\<lparr>m_readComplete := True\<rparr>, curOffset, None)
        else
          let bytesToRead =
                (if totalFileSize <s curOffset + ucast blockSize
                 then (ucast (totalFileSize - curOffset) :: DWORD)
                 else blockSize)
          in if bytesToRead = 0
             then (u1\<lparr>m_readComplete := True\<rparr>, curOffset, None)
             else (u1, curOffset, Some bytesToRead))"

text \<open>
  \<open>IssueRead\<close> itself: the guard on the two latches, the claim, the set-up of the
  context, and the submission. \<open>rd\<close> is the answer of \<open>ReadFileEx\<close>.
\<close>

definition IssueRead ::
  "submit \<Rightarrow> IOContext \<Rightarrow> DWORD \<Rightarrow> LONGLONG \<Rightarrow> IOUtils
    \<Rightarrow> bool \<times> IOUtils \<times> IOContext \<times> event list" where
  "IssueRead rd cntxt blockSize totalFileSize u =
    (if m_readComplete u \<or> m_errOccurred u then (False, u, cntxt, [])
     else
       case IssueRead_claim blockSize totalFileSize u of
         (u1, curOffset, None) \<Rightarrow> (False, u1, cntxt, [])
       | (u1, curOffset, Some bytesToRead) \<Rightarrow>
           let c1 = cntxt\<lparr>Offset := ucast (curOffset AND 0xFFFFFFFF),
                          OffsetHigh := ucast (signed_drop_bit 32 curOffset AND 0xFFFFFFFF),
                          completed := False,
                          readOffset := curOffset,
                          bytesTransferred := 0\<rparr>;
               u2 = u1\<lparr>m_pendingIOs := m_pendingIOs u1 + 1\<rparr>;
               call = ReadFileEx (OffsetHigh c1) (Offset c1) bytesToRead
           in (case rd of
                 Refused err \<Rightarrow>
                   (if err \<noteq> ERROR_HANDLE_EOF
                    then (False, u2\<lparr>m_errOccurred := True,
                                     m_pendingIOs := m_pendingIOs u2 - 1\<rparr>, c1, [call, LogError])
                    else (False, u2\<lparr>m_readComplete := True,
                                     m_pendingIOs := m_pendingIOs u2 - 1\<rparr>, c1, [call]))
               | Queued \<Rightarrow> (True, u2, c1, [call])))"

text \<open>
  A sequence of \<open>n\<close> claim steps on the shared state. What a step claims depends on the
  value its fetch-and-add returns and on nothing else that is shared, so the steps of
  concurrent callers are taken in the order of their fetch-and-adds. The guard of
  \<open>IssueRead\<close> is not part of a step: the sequences include those of callers that all
  passed the guard before any latch was set. Each entry is the state before the step,
  the claimed offset, the read length (\<open>None\<close>: no read) and the state after the step.
\<close>

fun claims ::
  "nat \<Rightarrow> DWORD \<Rightarrow> LONGLONG \<Rightarrow> IOUtils \<Rightarrow> (IOUtils \<times> LONGLONG \<times> DWORD option \<times> IOUtils) list" where
  "claims 0 blockSize totalFileSize u = []"
| "claims (Suc n) blockSize totalFileSize u =
     (case IssueRead_claim blockSize totalFileSize u of
        (u', curOffset, r) \<Rightarrow> (u, curOffset, r, u') # claims n blockSize totalFileSize u')"


text \<open>
  The intervals of source bytes that the specification assigns to a claim at offset
  \<open>curOffset\<close>: \<open>[o, o + min(b, T - o))\<close>, empty when the offset is at or past the end.
\<close>

definition claim_interval :: "DWORD \<Rightarrow> LONGLONG \<Rightarrow> LONGLONG \<Rightarrow> int set" where
  "claim_interval blockSize totalFileSize curOffset =
     {sint curOffset ..< sint curOffset + min (uint blockSize) (sint totalFileSize - sint curOffset)}"

text \<open>The state that the constructor \<open>IOUtils()\<close> builds.\<close>

definition IOUtils_init :: IOUtils where
  "IOUtils_init = \<lparr>m_pendingIOs = 0, m_fileOffset = 0, m_readComplete = False, m_errOccurred = False\<rparr>"

subsection \<open>IssueWrite\<close>

text \<open>
  \<open>IssueWrite_prepare\<close> is the bookkeeping that \<open>IssueWrite\<close> does before it calls
  \<open>WriteFileEx\<close>: the context's flag is cleared and \<open>m_pendingIOs\<close> is incremented. Its
  result is the state in which the request is submitted.
\<close>

definition IssueWrite_prepare :: "IOContext \<Rightarrow> IOUtils \<Rightarrow> IOUtils \<times> IOContext" where
  "IssueWrite_prepare cntxt u =
     (u\<lparr>m_pendingIOs := m_pendingIOs u + 1\<rparr>, cntxt\<lparr>completed := False\<rparr>)"

definition IssueWrite ::
  "submit \<Rightarrow> IOContext \<Rightarrow> DWORD \<Rightarrow> IOUtils \<Rightarrow> bool \<times> IOUtils \<times> IOContext \<times> event list" where
  "IssueWrite wr cntxt bytesToWrite u =
    (if m_errOccurred u then (False, u, cntxt, [])
     else
       case IssueWrite_prepare cntxt u of
         (u1, c1) \<Rightarrow>
           let call = WriteFileEx (OffsetHigh c1) (Offset c1) bytesToWrite
           in (case wr of
                 Refused err \<Rightarrow>
                   (False, u1\<lparr>m_errOccurred := True, m_pendingIOs := m_pendingIOs u1 - 1\<rparr>,
                    c1, [call, LogError])
               | Queued \<Rightarrow> (True, u1, c1, [call])))"

subsection \<open>The engine's state\<close>

text \<open>
  \<open>class BlockCopier\<close> (BlockCopier.h). A \<open>HANDLE\<close> is \<open>None\<close> when it is
  \<open>INVALID_HANDLE_VALUE\<close>. \<open>m_workerThreads\<close> keeps, for each \<open>std::thread\<close>, whether it is
  joinable.
\<close>

type_synonym HANDLE = "nat option"

record BlockCopier =
  m_hSrc :: HANDLE
  m_hDest :: HANDLE
  m_srcFileSize :: LONGLONG
  m_destCapacity :: LONGLONG
  m_destSectorSize :: DWORD
  m_numOfThreads :: cint
  m_blockSize :: DWORD
  m_cntxts :: "IOContext list"
  m_workerThreads :: "bool list"
  ioUtilsObj :: IOUtils
  m_bytesReadTotal :: LONGLONG
  m_bytesWrittenTotal :: LONGLONG

definition DEFAULT_BLOCK_SIZE_MB :: cint where
  "DEFAULT_BLOCK_SIZE_MB = 1"

definition DEFAULT_MAX_OUTSTANDING_IO :: cint where
  "DEFAULT_MAX_OUTSTANDING_IO = 4"

text \<open>The constructor \<open>BlockCopier()\<close>.\<close>

definition BlockCopier_init :: BlockCopier where
  "BlockCopier_init =
     \<lparr>m_hSrc = None, m_hDest = None, m_srcFileSize = 0, m_destCapacity = 0,
      m_destSectorSize = 0, m_numOfThreads = DEFAULT_MAX_OUTSTANDING_IO,
      m_blockSize = DEFAULT_BLOCK_SIZE_MB * 1024 * 1024, m_cntxts = [], m_workerThreads = [],
      ioUtilsObj = IOUtils_init, m_bytesReadTotal = 0, m_bytesWrittenTotal = 0\<rparr>"

definition setErrorOccuredInfo :: "bool \<Rightarrow> BlockCopier \<Rightarrow> BlockCopier" where
  "setErrorOccuredInfo ifOccured e = e\<lparr>ioUtilsObj := (ioUtilsObj e)\<lparr>m_errOccurred := ifOccured\<rparr>\<rparr>"

definition setReadCompleteInfo :: "bool \<Rightarrow> BlockCopier \<Rightarrow> BlockCopier" where
  "setReadCompleteInfo ifCompleted e =
     e\<lparr>ioUtilsObj := (ioUtilsObj e)\<lparr>m_readComplete := ifCompleted\<rparr>\<rparr>"

definition setPendingIOs :: "cint \<Rightarrow> BlockCopier \<Rightarrow> BlockCopier" where
  "setPendingIOs v e = e\<lparr>ioUtilsObj := (ioUtilsObj e)\<lparr>m_pendingIOs := v\<rparr>\<rparr>"

definition setFileOffset :: "LONGLONG \<Rightarrow> BlockCopier \<Rightarrow> BlockCopier" where
  "setFileOffset off e = e\<lparr>ioUtilsObj := (ioUtilsObj e)\<lparr>m_fileOffset := off\<rparr>\<rparr>"

definition getErrorOccuredInfo :: "BlockCopier \<Rightarrow> bool" where
  "getErrorOccuredInfo e = m_errOccurred (ioUtilsObj e)"

definition getReadCompleteInfo :: "BlockCopier \<Rightarrow> bool" where
  "getReadCompleteInfo e = m_readComplete (ioUtilsObj e)"

definition getPendingIOs :: "BlockCopier \<Rightarrow> cint" where
  "getPendingIOs e = m_pendingIOs (ioUtilsObj e)"

subsection \<open>OnReadCompletion\<close>

text \<open>
  \<open>memset(buf + off, 0, len)\<close> on the content of a buffer. Inside the buffer it writes
  \<open>len\<close> zero bytes from index \<open>off\<close>; the part of the range that lies outside the buffer
  is not represented (the caller records \<open>MemsetOutOfRange\<close> for it).
\<close>

definition memset0 :: "8 word list \<Rightarrow> nat \<Rightarrow> nat \<Rightarrow> 8 word list" where
  "memset0 b off len = take off b @ replicate (min len (length b - off)) 0 @ drop (off + len) b"

text \<open>
  The end of the handler, from the store to \<open>cntxt->bytesTransferred\<close> on: the write of
  \<open>bytesToWritePadded\<close> bytes is issued, and a failure to issue it sets the error latch.
  \<open>ev\<close> are the events before this point.
\<close>

definition OnReadCompletion_write ::
  "submit \<Rightarrow> DWORD \<Rightarrow> IOContext \<Rightarrow> event list \<Rightarrow> BlockCopier
    \<Rightarrow> BlockCopier \<times> IOContext option \<times> event list" where
  "OnReadCompletion_write wr bytesToWritePadded cntxt ev e =
    (case IssueWrite wr (cntxt\<lparr>bytesTransferred := bytesToWritePadded\<rparr>) bytesToWritePadded
            (ioUtilsObj e) of
       (ok, u, c, evw) \<Rightarrow>
         if \<not> ok
         then (setErrorOccuredInfo True (e\<lparr>ioUtilsObj := u\<rparr>), Some c, ev @ evw @ [LogError])
         else (e\<lparr>ioUtilsObj := u\<rparr>, Some c, ev @ evw))"

text \<open>
  Lines 178 to 188 of the handler: the padding of \<open>bytesToWritePadded\<close> up to a multiple
  of \<open>destSectorSize\<close> (which is not 0 here), with the exit taken when the padded length
  does not fit the buffer. The sum \<open>bytesToWritePadded + padding\<close> is a \<open>DWORD\<close> and wraps.
\<close>

definition OnReadCompletion_pad ::
  "submit \<Rightarrow> DWORD \<Rightarrow> DWORD \<Rightarrow> IOContext \<Rightarrow> event list \<Rightarrow> BlockCopier
    \<Rightarrow> BlockCopier \<times> IOContext option \<times> event list" where
  "OnReadCompletion_pad wr destSectorSize bytesToWritePadded cntxt ev0 e =
    (if bytesToWritePadded mod destSectorSize \<noteq> 0
     then
       let padding = destSectorSize - bytesToWritePadded mod destSectorSize
       in if bufSize cntxt < bytesToWritePadded + padding
          then (setErrorOccuredInfo True e, Some (cntxt\<lparr>completed := True\<rparr>), ev0 @ [LogError])
          else
            let c1 = cntxt\<lparr>buf := memset0 (buf cntxt) (unat bytesToWritePadded) (unat padding)\<rparr>;
                ev1 = (if length (buf cntxt) < unat bytesToWritePadded + unat padding
                       then [MemsetOutOfRange] else [])
            in OnReadCompletion_write wr (bytesToWritePadded + padding) c1 (ev0 @ ev1) e
     else OnReadCompletion_write wr bytesToWritePadded cntxt ev0 e)"

text \<open>
  The read-completion handler. \<open>lpOverlapped\<close> is \<open>None\<close> for a null pointer; \<open>wr\<close> is
  the answer \<open>WriteFileEx\<close> gives if the handler gets to issue the write. The result is
  the engine's state, the context, and the events.
\<close>

definition OnReadCompletion ::
  "submit \<Rightarrow> DWORD \<Rightarrow> DWORD \<Rightarrow> IOContext option \<Rightarrow> BlockCopier
    \<Rightarrow> BlockCopier \<times> IOContext option \<times> event list" where
  "OnReadCompletion wr errCode numOfBytesTransfered lpOverlapped e =
    (case lpOverlapped of
       None \<Rightarrow> (e, None, [LogError])
     | Some cntxt \<Rightarrow>
        if \<not> curInst cntxt then (e, Some cntxt, [LogError])
        else
          let e1 = setPendingIOs (getPendingIOs e - 1) e
          in if errCode \<noteq> ERROR_SUCCESS
             then (if errCode \<noteq> ERROR_HANDLE_EOF
                   then (setErrorOccuredInfo True e1, Some (cntxt\<lparr>completed := True\<rparr>), [LogError])
                   else ((if numOfBytesTransfered = 0 then setReadCompleteInfo True e1 else e1),
                         Some (cntxt\<lparr>completed := True\<rparr>), []))
             else if numOfBytesTransfered = 0
             then (setReadCompleteInfo True e1, Some (cntxt\<lparr>completed := True\<rparr>), [])
             else
               let e2 = e1\<lparr>m_bytesReadTotal := m_bytesReadTotal e1 + ucast numOfBytesTransfered\<rparr>;
                   destSectorSize = (if m_destSectorSize e2 = 0 then 4096 else m_destSectorSize e2);
                   ev0 = (if m_destSectorSize e2 = 0 then [LogWarning] else [])
               in OnReadCompletion_pad wr destSectorSize numOfBytesTransfered cntxt ev0 e2)"

subsection \<open>OnWriteCompletion\<close>

definition OnWriteCompletion ::
  "DWORD \<Rightarrow> DWORD \<Rightarrow> IOContext option \<Rightarrow> BlockCopier
    \<Rightarrow> BlockCopier \<times> IOContext option \<times> event list" where
  "OnWriteCompletion errCode numOfBytesTransfered lpOverlapped e =
    (case lpOverlapped of
       None \<Rightarrow> (e, None, [LogError])
     | Some cntxt \<Rightarrow>
        if \<not> curInst cntxt then (e, Some cntxt, [LogError])
        else
          let e1 = setPendingIOs (getPendingIOs e - 1) e;
              e2 = (if errCode \<noteq> ERROR_SUCCESS then setErrorOccuredInfo True e1 else e1);
              e3 = e2\<lparr>m_bytesWrittenTotal := m_bytesWrittenTotal e2 + ucast numOfBytesTransfered\<rparr>
          in (e3, Some (cntxt\<lparr>completed := True\<rparr>),
              (if errCode \<noteq> ERROR_SUCCESS then [LogError] else [])))"


section \<open>DiskUtils.cpp\<close>

text \<open>
  The answers of the operating system during \<open>Initialize\<close>. A size or geometry query
  is \<open>None\<close> when the call fails. \<open>dest_is_drive_letter\<close> is the outcome of the test
  that \<open>GetDiskOrDriveSize\<close> makes on the destination path (a drive-letter path);
  \<open>geometry_unsupported\<close> is the outcome of the test that \<open>GetVolumeSectorSize\<close> makes after
  a failed geometry query (lines 18 and 19: the error code is one of invalid-parameter
  and not-supported, and the path begins like a drive-letter path).
  \<open>VirtualAlloc_result i\<close> is the address of the buffer allocated for context \<open>i\<close>
  (0: the allocation failed).
\<close>

record init_env =
  CreateFileW_src_result :: HANDLE
  CreateFileW_dest_result :: HANDLE
  src_length_info :: "LONGLONG option"
  src_file_size :: "LONGLONG option"
  dest_is_drive_letter :: bool
  dest_free_space_total :: "LONGLONG option"
  dest_length_info :: "LONGLONG option"
  dest_file_size :: "LONGLONG option"
  dest_geometry_ex :: "LONGLONG option"
  dest_geometry :: "DWORD option"
  geometry_unsupported :: bool
  proceed_choice :: cint
  VirtualAlloc_result :: "nat \<Rightarrow> 64 word"

definition GetVolumeSectorSize :: "init_env \<Rightarrow> DWORD \<times> event list" where
  "GetVolumeSectorSize env =
    (case dest_geometry env of
       Some bytesPerSector \<Rightarrow> (bytesPerSector, [QuerySectorSize_dest])
     | None \<Rightarrow>
         if geometry_unsupported env
         then (0, [QuerySectorSize_dest, LogWarning])
         else (0, [QuerySectorSize_dest, LogError]))"

definition GetDiskOrDriveSize :: "init_env \<Rightarrow> bool \<Rightarrow> LONGLONG \<times> event list" where
  "GetDiskOrDriveSize env isSrc =
    (if isSrc
     then (case src_length_info env of
             None \<Rightarrow>
               (case src_file_size env of
                  Some tempFileSize \<Rightarrow> (tempFileSize, [QuerySize_src])
                | None \<Rightarrow> (0, [QuerySize_src, LogError]))
           | Some len \<Rightarrow> (len, [QuerySize_src]))
     else if dest_is_drive_letter env
     then (case dest_free_space_total env of
             Some totalNumOfBytes \<Rightarrow> (totalNumOfBytes, [QuerySize_dest])
           | None \<Rightarrow>
               (case dest_length_info env of
                  Some len \<Rightarrow> (len, [QuerySize_dest])
                | None \<Rightarrow>
                    (case dest_file_size env of
                       Some tempFileSize \<Rightarrow> (tempFileSize, [QuerySize_dest])
                     | None \<Rightarrow> (0, [QuerySize_dest, LogError]))))
     else (case dest_length_info env of
             Some len \<Rightarrow> (len, [QuerySize_dest])
           | None \<Rightarrow>
               (case dest_geometry_ex env of
                  Some diskSize \<Rightarrow> (diskSize, [QuerySize_dest])
                | None \<Rightarrow> (0, [QuerySize_dest, LogError]))))"

section \<open>BlockCopier.cpp\<close>

subsection \<open>Initialize\<close>

text \<open>
  \<open>Initialize\<close> returns false at eleven places. The model names the place: the result
  is \<open>None\<close> where the function returns true and \<open>Some\<close> of the reason where it returns
  false, together with the engine as the call leaves it and the events.
\<close>

datatype init_error =
    InvalidThreads
  | InvalidBlockSize
  | SrcOpenFailed
  | DestOpenFailed
  | SrcSizeFailed
  | DestCapacityFailed
  | DestTooSmall
  | UserDeclined
  | BlockNotSectorMultiple
  | BufferAllocFailed
  | BufferMisaligned

type_synonym init_result = "init_error option \<times> BlockCopier \<times> event list"

text \<open>Sequencing of two parts of the function: the second runs if the first did not return.\<close>

definition and_then :: "init_result \<Rightarrow> (BlockCopier \<Rightarrow> init_result) \<Rightarrow> init_result" where
  "and_then r f =
    (case r of
       (Some err, e, ev) \<Rightarrow> (Some err, e, ev)
     | (None, e, ev) \<Rightarrow> (case f e of (r', e', ev') \<Rightarrow> (r', e', ev @ ev')))"

text \<open>Lines 74 to 92: the parameters. \<open>static_cast<DWORD>(blockSizeMB)\<close> keeps the bits.\<close>

definition Initialize_params :: "cint \<Rightarrow> cint \<Rightarrow> BlockCopier \<Rightarrow> init_result" where
  "Initialize_params nThreads blockSizeMB e =
    (let e1 = e\<lparr>m_numOfThreads := nThreads, m_blockSize := blockSizeMB * 1024 * 1024\<rparr>
     in if m_numOfThreads e1 \<le>s 0 \<or> 64 <s m_numOfThreads e1
        then (Some InvalidThreads, e1, [LogError])
        else if m_blockSize e1 \<le> 0 then (Some InvalidBlockSize, e1, [LogError])
        else (None, e1, []))"

text \<open>Lines 94 to 111: the two handles.\<close>

definition Initialize_open :: "init_env \<Rightarrow> BlockCopier \<Rightarrow> init_result" where
  "Initialize_open env e =
    (let e1 = e\<lparr>m_hSrc := CreateFileW_src_result env\<rparr>
     in if m_hSrc e1 = None then (Some SrcOpenFailed, e1, [CreateFileW_src, LogError])
        else
          let e2 = e1\<lparr>m_hDest := CreateFileW_dest_result env\<rparr>
          in if m_hDest e2 = None
             then (Some DestOpenFailed, e2,
                   [CreateFileW_src, CreateFileW_dest, LogError, CloseHandle_src])
             else (None, e2, [CreateFileW_src, CreateFileW_dest]))"

text \<open>Lines 113 to 139: the two sizes and the capacity check.\<close>

definition Initialize_sizes :: "init_env \<Rightarrow> BlockCopier \<Rightarrow> init_result" where
  "Initialize_sizes env e =
    (case GetDiskOrDriveSize env True of
       (srcSize, evs) \<Rightarrow>
         let e1 = e\<lparr>m_srcFileSize := srcSize\<rparr>
         in if m_srcFileSize e1 = 0
            then (Some SrcSizeFailed, e1, evs @ [LogError, CloseHandle_src, CloseHandle_dest])
            else
              (case GetDiskOrDriveSize env False of
                 (destSize, evd) \<Rightarrow>
                   let e2 = e1\<lparr>m_destCapacity := destSize\<rparr>
                   in if m_destCapacity e2 = 0
                      then (Some DestCapacityFailed, e2,
                            evs @ evd @ [LogError, CloseHandle_src, CloseHandle_dest])
                      else if m_destCapacity e2 <s m_srcFileSize e2
                      then (Some DestTooSmall, e2,
                            evs @ evd @ [LogError, LogError, CloseHandle_src, CloseHandle_dest])
                      else (None, e2, evs @ evd)))"

text \<open>Lines 141 to 169: the destination's sector size and the block size against it.\<close>

definition Initialize_sector :: "init_env \<Rightarrow> BlockCopier \<Rightarrow> init_result" where
  "Initialize_sector env e =
    (case GetVolumeSectorSize env of
       (sectorSize, evq) \<Rightarrow>
         let e1 = e\<lparr>m_destSectorSize := sectorSize\<rparr>
         in if m_destSectorSize e1 = 0 \<and> proceed_choice env = 0
            then (Some UserDeclined, e1,
                  evq @ [LogError, PromptUser, CloseHandle_src, CloseHandle_dest])
            else
              let e2 = (if m_destSectorSize e1 = 0 then e1\<lparr>m_destSectorSize := 4096\<rparr> else e1);
                  evp = (if m_destSectorSize e1 = 0 then [LogError, PromptUser] else [])
              in if m_blockSize e2 mod m_destSectorSize e2 \<noteq> 0
                 then (Some BlockNotSectorMultiple, e2,
                       evq @ evp @ [LogError, CloseHandle_src, CloseHandle_dest])
                 else (None, e2, evq @ evp))"

text \<open>
  The constructor \<open>IOContext(bSize)\<close>, given the address that \<open>VirtualAlloc\<close> returns:
  freshly committed pages are zero.
\<close>

definition IOContext_new :: "DWORD \<Rightarrow> 64 word \<Rightarrow> IOContext" where
  "IOContext_new bSize addr =
     \<lparr>Offset = 0, OffsetHigh = 0, bufAddr = addr,
      buf = (if addr = 0 then [] else replicate (unat bSize) 0),
      bufSize = bSize, completed = False, readOffset = 0, bytesTransferred = 0,
      curInst = False\<rparr>"

text \<open>Lines 176 to 197: the loop that prepares one context per thread, over its indices.\<close>

fun Initialize_contexts :: "init_env \<Rightarrow> nat list \<Rightarrow> BlockCopier \<Rightarrow> init_result" where
  "Initialize_contexts env [] e = (None, e, [])"
| "Initialize_contexts env (i # is) e =
    (let newCntxt = IOContext_new (m_blockSize e) (VirtualAlloc_result env i);
         evc = VirtualAlloc (m_blockSize e) # (if bufAddr newCntxt = 0 then [LogError] else [])
     in if bufAddr newCntxt = 0 then (Some BufferAllocFailed, e, evc @ [LogError])
        else
          let c1 = newCntxt\<lparr>curInst := True\<rparr>
          in if bufAddr c1 mod ucast (m_destSectorSize e) \<noteq> 0
             then (Some BufferMisaligned, e, evc @ [LogError, CloseHandle_src, CloseHandle_dest])
             else and_then (None, e\<lparr>m_cntxts := m_cntxts e @ [c1]\<rparr>, evc)
                    (Initialize_contexts env is))"

definition Initialize :: "init_env \<Rightarrow> cint \<Rightarrow> cint \<Rightarrow> BlockCopier \<Rightarrow> init_result" where
  "Initialize env nThreads blockSizeMB e =
     and_then (and_then (and_then (and_then
       (Initialize_params nThreads blockSizeMB e)
       (Initialize_open env))
       (Initialize_sizes env))
       (Initialize_sector env))
       (\<lambda>e'. Initialize_contexts env [0 ..< nat (sint (m_numOfThreads e'))] (e'\<lparr>m_cntxts := []\<rparr>))"


subsection \<open>StartCopy\<close>

text \<open>
  \<open>StartCopy\<close> runs on the controlling thread while the workers run beside it. What
  the workers and the operating system do is given to the model as the values the
  controlling thread meets:
  \<^item> \<open>polls\<close>: the shared atomics at each evaluation of the monitoring loop's condition;
  \<^item> \<open>at_signal\<close>: the shared atomics when line 261 reads the error latch;
  \<^item> \<open>native_handle_valid i\<close>, \<open>QueueUserAPC_result i\<close>: the thread handle of worker
    \<open>i\<close> and the answer to the wake-up queued to it;
  \<^item> \<open>worker i\<close>: where worker \<open>i\<close> stands in \<open>WorkerThreadLoop\<close> when the controlling
    thread comes to join it;
  \<^item> \<open>after_join\<close>: the shared state the workers leave behind;
  \<^item> \<open>FlushFileBuffers_ok\<close>: the answer of the final flush.
\<close>

record shared_state =
  atomics :: IOUtils
  bytesReadTotal :: LONGLONG
  bytesWrittenTotal :: LONGLONG
  contexts :: "IOContext list"

text \<open>
  The position of a worker in \<open>WorkerThreadLoop\<close> (lines 16 to 69) when it is joined.
  \<^item> \<open>Leaving\<close>: the worker has left the function, or leaves it by its own means: its
    first \<open>IssueRead\<close> failed, or a completion routine for its context is still to run
    and ends its loop.
  \<^item> \<open>Waiting u\<close>: the worker is inside \<open>SleepEx(INFINITE, TRUE)\<close> (line 35) and no read or
    write of its context is outstanding, so that no completion routine will be queued
    to it. The call returns only for an APC that another thread queues to the worker.
    When it does, \<open>completed\<close> is clear, the body of line 38 is skipped, and the worker
    reads the condition of its loop on the atomics \<open>u\<close>.
\<close>

datatype worker_state = Leaving | Waiting IOUtils

record copy_env =
  polls :: "IOUtils list"
  at_signal :: IOUtils
  native_handle_valid :: "nat \<Rightarrow> bool"
  QueueUserAPC_result :: "nat \<Rightarrow> submit"
  worker :: "nat \<Rightarrow> worker_state"
  after_join :: shared_state
  FlushFileBuffers_ok :: bool

text \<open>The condition of the loop of \<open>WorkerThreadLoop\<close> (lines 31 and 32) on one reading.\<close>

definition worker_continues :: "IOUtils \<Rightarrow> bool" where
  "worker_continues u \<longleftrightarrow>
     \<not> m_errOccurred u \<and> \<not> (m_readComplete u \<and> m_pendingIOs u = 0)"

text \<open>
  The condition of the monitoring loop (lines 235 and 236) on one reading of the
  atomics.
\<close>

definition keep_monitoring :: "IOUtils \<Rightarrow> bool" where
  "keep_monitoring u \<longleftrightarrow> (0 <s m_pendingIOs u \<or> \<not> m_readComplete u) \<and> \<not> m_errOccurred u"

text \<open>
  The monitoring loop over the successive readings: it leaves at the first reading
  that falsifies its condition, which is returned. \<open>None\<close>: no reading does, and the
  loop does not end.
\<close>

fun monitor :: "IOUtils list \<Rightarrow> IOUtils option" where
  "monitor [] = None"
| "monitor (u # us) = (if keep_monitoring u then monitor us else Some u)"

text \<open>The body of the loop of lines 262 to 282 for worker \<open>i\<close>.\<close>

definition wake_worker :: "copy_env \<Rightarrow> bool list \<Rightarrow> nat \<Rightarrow> event list" where
  "wake_worker env workerThreads i =
    (if workerThreads ! i
     then (if native_handle_valid env i
           then (case QueueUserAPC_result env i of
                   Refused err \<Rightarrow>
                     if err = ERROR_GEN_FAILURE then [QueueUserAPC i]
                     else [QueueUserAPC i, LogError]
                 | Queued \<Rightarrow> [QueueUserAPC i])
           else [])
     else [])"

text \<open>
  Lines 260 to 283: the wake-ups of the \<open>n\<close> workers, under the guard of line 261 on
  the error latch.
\<close>

definition wake_ups :: "copy_env \<Rightarrow> bool list \<Rightarrow> nat \<Rightarrow> event list" where
  "wake_ups env workerThreads n =
     (if \<not> m_errOccurred (at_signal env)
      then concat (map (wake_worker env workerThreads) [0 ..< n])
      else [])"

text \<open>
  Whether \<open>join\<close> on worker \<open>i\<close> returns, after the calls \<open>apcs\<close> of the controlling
  thread. A worker that leaves by itself is joined. A waiting worker is joined if a
  wake-up was queued to it, so that its \<open>SleepEx\<close> returns, and the condition of its
  loop is false then; otherwise it stays in \<open>SleepEx(INFINITE, TRUE)\<close>, or goes back
  to it, and \<open>join\<close> waits for ever.
\<close>

definition join_returns :: "copy_env \<Rightarrow> event list \<Rightarrow> nat \<Rightarrow> bool" where
  "join_returns env apcs i =
     (case worker env i of
        Leaving \<Rightarrow> True
      | Waiting u \<Rightarrow>
          QueueUserAPC i \<in> set apcs \<and> QueueUserAPC_result env i = Queued
          \<and> \<not> worker_continues u)"

text \<open>
  The loop that joins the joinable threads, in their order (lines 289 to 294, and
  lines 54 to 58 of \<open>BlockCopier.h\<close>): the calls of \<open>join\<close>, and whether the loop ends.
  It stops in the first \<open>join\<close> that does not return.
\<close>

fun join_loop :: "(nat \<Rightarrow> bool) \<Rightarrow> bool list \<Rightarrow> nat list \<Rightarrow> event list \<times> bool" where
  "join_loop returns workerThreads [] = ([], True)"
| "join_loop returns workerThreads (i # ixs) =
     (if workerThreads ! i
      then if returns i
           then (case join_loop returns workerThreads ixs of
                   (ev, ended) \<Rightarrow> (JoinWorker i # ev, ended))
           else ([JoinWorker i], False)
      else join_loop returns workerThreads ixs)"

text \<open>
  \<open>StartCopy\<close>, with the events of the controlling thread whether or not the call
  returns. The second component is \<open>None\<close> when it does not (the monitoring loop does
  not end, or a \<open>join\<close> waits for a worker that does not exit); otherwise it holds the
  returned boolean and the engine.
\<close>

definition StartCopy_trace ::
  "copy_env \<Rightarrow> BlockCopier \<Rightarrow> event list \<times> (bool \<times> BlockCopier) option" where
  "StartCopy_trace env e =
    (if m_hSrc e = None \<or> m_hDest e = None \<or> m_cntxts e = []
     then ([LogError], Some (False, e))
     else
       let e1 = setPendingIOs 0 (setFileOffset 0
                  (setErrorOccuredInfo False (setReadCompleteInfo False e)));
           e2 = e1\<lparr>m_bytesReadTotal := 0, m_bytesWrittenTotal := 0\<rparr>;
           n = nat (sint (m_numOfThreads e2));
           e3 = e2\<lparr>m_workerThreads := replicate n True\<rparr>;
           launch = map LaunchWorker [0 ..< n]
       in case monitor (polls env) of
            None \<Rightarrow> (launch, None)
          | Some u \<Rightarrow>
              let apcs = wake_ups env (m_workerThreads e3) n;
                  joined = join_loop (join_returns env apcs) (m_workerThreads e3) [0 ..< n];
                  joins = fst joined
              in if \<not> snd joined then (launch @ apcs @ joins, None)
                 else
                   let e4 = e3\<lparr>m_workerThreads := replicate n False,
                               ioUtilsObj := atomics (after_join env),
                               m_bytesReadTotal := bytesReadTotal (after_join env),
                               m_bytesWrittenTotal := bytesWrittenTotal (after_join env),
                               m_cntxts := contexts (after_join env)\<rparr>;
                       e5 = (if FlushFileBuffers_ok env then e4 else setErrorOccuredInfo True e4);
                       flush = (if FlushFileBuffers_ok env then [FlushFileBuffers]
                                else [FlushFileBuffers, LogError])
                   in if getErrorOccuredInfo e5
                      then (launch @ apcs @ joins @ flush @ [LogError], Some (False, e5))
                      else (launch @ apcs @ joins @ flush, Some (True, e5)))"

text \<open>
  The call as its caller sees it: \<open>None\<close> when it does not return, otherwise the
  returned boolean, the engine and the events.
\<close>

definition StartCopy :: "copy_env \<Rightarrow> BlockCopier \<Rightarrow> (bool \<times> BlockCopier \<times> event list) option" where
  "StartCopy env e =
     (case StartCopy_trace env e of
        (ev, None) \<Rightarrow> None
      | (ev, Some (ok, e')) \<Rightarrow> Some (ok, e', ev))"

subsection \<open>The destructor\<close>

text \<open>
  \<open>~BlockCopier\<close> (\<open>BlockCopier.h\<close>, lines 52 to 69) joins the threads that are still
  joinable and closes each handle that is not \<open>INVALID_HANDLE_VALUE\<close>. \<open>Initialize\<close>
  leaves \<open>m_hSrc\<close> and \<open>m_hDest\<close> as they are when it closes them, so that after a
  failed \<open>Initialize\<close> the destructor calls \<open>CloseHandle\<close> on them once more. The result
  is \<open>None\<close> when a \<open>join\<close> does not return.
\<close>

definition BlockCopier_destroy :: "(nat \<Rightarrow> bool) \<Rightarrow> BlockCopier \<Rightarrow> event list option" where
  "BlockCopier_destroy returns e =
     (let joined = join_loop returns (m_workerThreads e) [0 ..< length (m_workerThreads e)]
      in if \<not> snd joined then None
         else Some (fst joined
                    @ (if m_hSrc e \<noteq> None then [CloseHandle_src] else [])
                    @ (if m_hDest e \<noteq> None then [CloseHandle_dest] else [])))"

section \<open>main.cpp\<close>

text \<open>
  The outcome of parsing the command line: the usage message, \<open>--usedefault\<close>, or the
  two numbers read by \<open>_wtoi\<close>. \<open>proceed\<close> is the user's answer to the prompt. The result
  is the exit code and the events, \<open>None\<close> when the program does not end.

  \<open>copier\<close> is declared at line 57, after the prompt: each \<open>return\<close> below that line
  (lines 63, 74 and 82) runs its destructor, after the message of \<open>main\<close>. No wake-up
  is queued there, so that a \<open>join\<close> of the destructor returns for a worker that leaves
  by itself only.
\<close>

datatype cli = Usage | UseDefault | Custom cint cint

definition run_copier ::
  "init_env \<Rightarrow> copy_env \<Rightarrow> cint \<Rightarrow> cint \<Rightarrow> (cint \<times> event list) option" where
  "run_copier ienv cenv numThreads blockSizeMB =
    (case Initialize ienv numThreads blockSizeMB BlockCopier_init of
       (Some err, copier, ev) \<Rightarrow>
         map_option (\<lambda>evd. (1, ev @ [LogError] @ evd))
           (BlockCopier_destroy (join_returns cenv []) copier)
     | (None, copier, ev) \<Rightarrow>
         (case StartCopy cenv copier of
            None \<Rightarrow> None
          | Some (ok, copier', evc) \<Rightarrow>
              if \<not> ok
              then map_option (\<lambda>evd. (1, ev @ evc @ [LogError] @ evd))
                     (BlockCopier_destroy (join_returns cenv []) copier')
              else map_option (\<lambda>evd. (0, ev @ evc @ evd))
                     (BlockCopier_destroy (join_returns cenv []) copier')))"

definition wmain :: "cli \<Rightarrow> bool \<Rightarrow> init_env \<Rightarrow> copy_env \<Rightarrow> (cint \<times> event list) option" where
  "wmain args proceed ienv cenv =
    (case args of
       Usage \<Rightarrow> Some (1, [])
     | UseDefault \<Rightarrow>
         if \<not> proceed then Some (0, [])
         else run_copier ienv cenv DEFAULT_MAX_OUTSTANDING_IO DEFAULT_BLOCK_SIZE_MB
     | Custom numThreads blockSizeMB \<Rightarrow>
         if numThreads \<le>s 0 \<or> blockSizeMB \<le>s 0 then Some (1, [])
         else if \<not> proceed then Some (0, [])
         else run_copier ienv cenv numThreads blockSizeMB)"


section \<open>Observations\<close>

text \<open>
  The events by which data moves or a worker starts: the submission of a read or of a
  write, and the launch of a worker thread (claims are made by workers only).
\<close>

fun is_io :: "event \<Rightarrow> bool" where
  "is_io (ReadFileEx h l n) = True"
| "is_io (WriteFileEx h l n) = True"
| "is_io (LaunchWorker i) = True"
| "is_io ev = False"

text \<open>The boolean that \<open>StartCopy\<close> returns, if it returns.\<close>

definition returned :: "(bool \<times> BlockCopier \<times> event list) option \<Rightarrow> bool option" where
  "returned r = map_option fst r"

section \<open>Example runs\<close>

text \<open>
  A run in the shape of the specification's first scenario: a source of 3 MiB, a
  destination of the same capacity with sectors of 4096 bytes, every query answered.
\<close>

definition good_env :: init_env where
  "good_env =
     \<lparr>CreateFileW_src_result = Some 1, CreateFileW_dest_result = Some 2,
      src_length_info = Some 3145728, src_file_size = None,
      dest_is_drive_letter = False, dest_free_space_total = None,
      dest_length_info = Some 3145728, dest_file_size = None, dest_geometry_ex = None,
      dest_geometry = Some 4096, geometry_unsupported = False, proceed_choice = 1,
      VirtualAlloc_result = (\<lambda>i. 65536 * (of_nat i + 1))\<rparr>"

text \<open>The same with an empty source, and with a destination one byte too small.\<close>

definition empty_source_env :: init_env where
  "empty_source_env = good_env\<lparr>src_length_info := Some 0\<rparr>"

definition small_dest_env :: init_env where
  "small_dest_env = good_env\<lparr>dest_length_info := Some 3145727\<rparr>"

text \<open>The engine after a successful \<open>Initialize\<close> with two threads and blocks of 1 MiB.\<close>

definition ready_engine :: BlockCopier where
  "ready_engine = fst (snd (Initialize good_env 2 1 BlockCopier_init))"

text \<open>
  Readings of the shared atomics with two workers: copying in progress, and everything
  read and written.
\<close>

definition running_state :: IOUtils where
  "running_state =
     \<lparr>m_pendingIOs = 2, m_fileOffset = 2097152, m_readComplete = False, m_errOccurred = False\<rparr>"

definition done_state :: IOUtils where
  "done_state =
     \<lparr>m_pendingIOs = 0, m_fileOffset = 5242880, m_readComplete = True, m_errOccurred = False\<rparr>"

text \<open>
  Two runs of the copy phase with two workers that leave by themselves: one without
  any error, and one where only the final flush fails.
\<close>

definition clean_run :: copy_env where
  "clean_run =
     \<lparr>polls = [running_state, done_state], at_signal = done_state,
      native_handle_valid = (\<lambda>i. True), QueueUserAPC_result = (\<lambda>i. Queued),
      worker = (\<lambda>i. Leaving),
      after_join = \<lparr>atomics = done_state, bytesReadTotal = 3145728,
                     bytesWrittenTotal = 3145728, contexts = m_cntxts ready_engine\<rparr>,
      FlushFileBuffers_ok = True\<rparr>"

definition flush_failure_run :: copy_env where
  "flush_failure_run = clean_run\<lparr>FlushFileBuffers_ok := False\<rparr>"

text \<open>
  A copy of the same source with three workers, in which worker 1 comes to wait.
  Workers 0, 1 and 2 claim the blocks at 0, 1 MiB and 2 MiB. Worker 0 ends its write
  first: its next claim, at 3 MiB, is at the end of the source, \<open>IssueRead\<close> sets the read
  latch and the worker leaves its loop (lines 48 to 52). Worker 1 ends its write next:
  the latch is set, so it issues no read (line 47), and since the write of worker 2
  is still pending the condition of its loop holds and it enters
  \<open>SleepEx(INFINITE, TRUE)\<close> with nothing outstanding: the reading \<open>last_write_state\<close>.
  Then the write of worker 2 completes and worker 2 leaves its loop.
\<close>

definition three_worker_engine :: BlockCopier where
  "three_worker_engine = fst (snd (Initialize good_env 3 1 BlockCopier_init))"

definition last_write_state :: IOUtils where
  "last_write_state =
     \<lparr>m_pendingIOs = 1, m_fileOffset = 4194304, m_readComplete = True, m_errOccurred = False\<rparr>"

text \<open>The atomics after the last write: completed, or completed with an error.\<close>

definition drained_state :: IOUtils where
  "drained_state = last_write_state\<lparr>m_pendingIOs := 0\<rparr>"

definition late_failure_state :: IOUtils where
  "late_failure_state = last_write_state\<lparr>m_pendingIOs := 0, m_errOccurred := True\<rparr>"

text \<open>
  The two runs that differ in the last write only. In \<open>waiting_clean_run\<close> it
  succeeds; in \<open>waiting_error_run\<close> it completes with an error, \<open>OnWriteCompletion\<close> sets
  the error latch, and the monitoring loop is left because of it.
\<close>

definition waiting_clean_run :: copy_env where
  "waiting_clean_run =
     \<lparr>polls = [running_state, last_write_state, drained_state], at_signal = drained_state,
      native_handle_valid = (\<lambda>i. True), QueueUserAPC_result = (\<lambda>i. Queued),
      worker = (\<lambda>i. if i = 1 then Waiting drained_state else Leaving),
      after_join = \<lparr>atomics = drained_state, bytesReadTotal = 3145728,
                     bytesWrittenTotal = 3145728, contexts = m_cntxts three_worker_engine\<rparr>,
      FlushFileBuffers_ok = True\<rparr>"

definition waiting_error_run :: copy_env where
  "waiting_error_run =
     \<lparr>polls = [running_state, last_write_state, late_failure_state],
      at_signal = late_failure_state,
      native_handle_valid = (\<lambda>i. True), QueueUserAPC_result = (\<lambda>i. Queued),
      worker = (\<lambda>i. if i = 1 then Waiting late_failure_state else Leaving),
      after_join = \<lparr>atomics = late_failure_state, bytesReadTotal = 3145728,
                     bytesWrittenTotal = 2097152, contexts = m_cntxts three_worker_engine\<rparr>,
      FlushFileBuffers_ok = True\<rparr>"

text \<open>
  The engine in the middle of a copy, and a context of it whose read at offset 1 MiB is
  outstanding.
\<close>

definition running_engine :: BlockCopier where
  "running_engine =
     ready_engine\<lparr>m_workerThreads := [True, True], ioUtilsObj := running_state,
                  m_bytesReadTotal := 1048576, m_bytesWrittenTotal := 0\<rparr>"

definition busy_context :: IOContext where
  "busy_context =
     (IOContext_new 1048576 65536)\<lparr>Offset := 1048576, readOffset := 1048576, curInst := True\<rparr>"

section \<open>The specification's padded length\<close>

text \<open>
  The specification's words for the padded write length: the number of bytes "rounded up
  to the next multiple" of the sector size. This definition follows the specification;
  the handler's own computation is \<open>OnReadCompletion_pad\<close>, and the two are compared
  below.
\<close>

definition round_up :: "nat \<Rightarrow> nat \<Rightarrow> nat" where
  "round_up n s = ((n + s - 1) div s) * s"

text \<open>The engine in the middle of a copy, had its sector size been left at 0.\<close>

definition sectorless_engine :: BlockCopier where
  "sectorless_engine = running_engine\<lparr>m_destSectorSize := 0\<rparr>"

section \<open>Successive calls of IssueRead\<close>

text \<open>
  Calls of \<open>IssueRead\<close> that follow one another on the shared atomics, each with the
  answer of \<open>ReadFileEx\<close> and the context it is given; the result is the shared state
  after the last call.
\<close>

fun IssueRead_calls :: "(submit \<times> IOContext) list \<Rightarrow> DWORD \<Rightarrow> LONGLONG \<Rightarrow> IOUtils \<Rightarrow> IOUtils" where
  "IssueRead_calls [] blockSize totalFileSize u = u"
| "IssueRead_calls ((rd, cntxt) # cs) blockSize totalFileSize u =
     (case IssueRead rd cntxt blockSize totalFileSize u of
        (ok, u', c', ev) \<Rightarrow> IssueRead_calls cs blockSize totalFileSize u')"

text \<open>
  The invariant of such calls: the read latch is set, or the next offset to claim is
  less than one block past the end of the source.
\<close>

definition claim_in_range :: "DWORD \<Rightarrow> LONGLONG \<Rightarrow> IOUtils \<Rightarrow> bool" where
  "claim_in_range blockSize totalFileSize u \<longleftrightarrow>
     m_readComplete u \<or> sint (m_fileOffset u) < sint totalFileSize + uint blockSize"

section \<open>Verification\<close>

subsection \<open>Signed 64-bit and unsigned 32-bit arithmetic without wrap-around\<close>

lemma stb63:
  "- 9223372036854775808 \<le> k \<Longrightarrow> k < 9223372036854775808 \<Longrightarrow> signed_take_bit 63 k = (k::int)"
  by (rule signed_take_bit_int_eq_self) simp_all

lemma uint_DWORD_range: "0 \<le> uint (b :: DWORD) \<and> uint b < 4294967296"
  using uint_lt2p [of b] by simp

lemma sint_LONGLONG_range:
  "- 9223372036854775808 \<le> sint (a :: LONGLONG) \<and> sint a < 9223372036854775808"
  using sint_range_size [of a] by (simp add: word_size)

lemma sint_ucast_DWORD: "sint (ucast (b :: DWORD) :: LONGLONG) = uint b"
proof -
  have "(ucast b :: LONGLONG) = word_of_int (uint b)" by simp
  then have "sint (ucast b :: LONGLONG) = signed_take_bit 63 (uint b)"
    by (simp only: sint_sbintrunc') simp
  also have "\<dots> = uint b"
    by (rule stb63) (use uint_DWORD_range [of b] in linarith)+
  finally show ?thesis .
qed

lemma sint_add_LONGLONG:
  fixes a b :: LONGLONG
  assumes "- 9223372036854775808 \<le> sint a + sint b" and "sint a + sint b < 9223372036854775808"
  shows "sint (a + b) = sint a + sint b"
  using stb63 [OF assms] by (simp add: sint_word_add)

lemma sint_sub_LONGLONG:
  fixes a b :: LONGLONG
  assumes "- 9223372036854775808 \<le> sint a - sint b" and "sint a - sint b < 9223372036854775808"
  shows "sint (a - b) = sint a - sint b"
  using stb63 [OF assms] by (simp add: sint_word_diff)

lemma uint_ucast_LONGLONG:
  fixes x :: LONGLONG
  assumes "0 \<le> sint x" and "sint x < 4294967296"
  shows "uint (ucast x :: DWORD) = sint x"
proof -
  have "uint (ucast x :: DWORD) = take_bit 32 (uint x)"
    by (simp add: unsigned_ucast_eq)
  also have "\<dots> = take_bit 32 (signed_take_bit 63 (uint x))"
    by (simp add: take_bit_signed_take_bit)
  also have "\<dots> = take_bit 32 (sint x)"
    by (simp add: sint_uint)
  also have "\<dots> = sint x"
    by (rule take_bit_int_eq_self) (use assms in simp_all)
  finally show ?thesis .
qed

lemma IssueRead_claim_step:
  assumes b: "blockSize \<noteq> 0"
    and nowrap: "sint (m_fileOffset u) + uint blockSize < 9223372036854775808"
  shows "IssueRead_claim blockSize totalFileSize u =
     (if totalFileSize \<le>s m_fileOffset u
      then (u\<lparr>m_fileOffset := m_fileOffset u + ucast blockSize, m_readComplete := True\<rparr>,
            m_fileOffset u, None)
      else (u\<lparr>m_fileOffset := m_fileOffset u + ucast blockSize\<rparr>, m_fileOffset u,
            Some (word_of_int (min (uint blockSize) (sint totalFileSize - sint (m_fileOffset u))))))"
proof (cases "totalFileSize \<le>s m_fileOffset u")
  case True
  then show ?thesis by (simp add: IssueRead_claim_def Let_def)
next
  case False
  define c where "c = m_fileOffset u"
  have lt: "sint c < sint totalFileSize"
    using False by (simp add: word_sle_eq c_def)
  note rc = sint_LONGLONG_range [of c]
  note rt = sint_LONGLONG_range [of totalFileSize]
  note rb = uint_DWORD_range [of blockSize]
  have "- 9223372036854775808 \<le> sint c + sint (ucast blockSize :: LONGLONG)"
    and "sint c + sint (ucast blockSize :: LONGLONG) < 9223372036854775808"
    using nowrap rc rb unfolding sint_ucast_DWORD c_def by linarith+
  then have "sint (c + ucast blockSize) = sint c + sint (ucast blockSize :: LONGLONG)"
    by (rule sint_add_LONGLONG)
  then have sum: "sint (c + ucast blockSize) = sint c + uint blockSize"
    by (simp add: sint_ucast_DWORD)
  show ?thesis
  proof (cases "totalFileSize <s c + ucast blockSize")
    case True
    then have gt: "sint totalFileSize < sint c + uint blockSize"
      by (simp add: word_sless_alt sum)
    have "- 9223372036854775808 \<le> sint totalFileSize - sint c"
      and "sint totalFileSize - sint c < 9223372036854775808"
      using lt gt rb by linarith+
    then have d: "sint (totalFileSize - c) = sint totalFileSize - sint c"
      by (rule sint_sub_LONGLONG)
    have "0 \<le> sint (totalFileSize - c)" and "sint (totalFileSize - c) < 4294967296"
      using lt gt rb unfolding d by linarith+
    then have "uint (ucast (totalFileSize - c) :: DWORD) = sint (totalFileSize - c)"
      by (rule uint_ucast_LONGLONG)
    then have ud: "uint (ucast (totalFileSize - c) :: DWORD) = sint totalFileSize - sint c"
      using d by simp
    then have e: "(ucast (totalFileSize - c) :: DWORD) = word_of_int (sint totalFileSize - sint c)"
      by (metis word_of_int_uint)
    have nz: "(ucast (totalFileSize - c) :: DWORD) \<noteq> 0"
    proof
      assume "(ucast (totalFileSize - c) :: DWORD) = 0"
      then have "uint (ucast (totalFileSize - c) :: DWORD) = 0" by simp
      with ud lt show False by simp
    qed
    have m: "min (uint blockSize) (sint totalFileSize - sint c) = sint totalFileSize - sint c"
      using gt by simp
    show ?thesis
      using True False nz unfolding IssueRead_claim_def Let_def c_def [symmetric] m e [symmetric]
      by simp
  next
    case F2: False
    then have ge: "sint c + uint blockSize \<le> sint totalFileSize"
      by (simp add: word_sless_alt sum)
    then have m: "min (uint blockSize) (sint totalFileSize - sint c) = uint blockSize"
      by simp
    show ?thesis
      using F2 False b unfolding IssueRead_claim_def Let_def c_def [symmetric] m
      by simp
  qed
qed


lemma IssueRead_claim_offset:
  "IssueRead_claim blockSize totalFileSize u = (u', off, r) \<Longrightarrow>
     off = m_fileOffset u \<and> m_fileOffset u' = m_fileOffset u + ucast blockSize"
  by (auto simp: IssueRead_claim_def Let_def split: if_splits)

lemma sint_fileOffset_next:
  fixes blockSize :: DWORD
  assumes "sint (m_fileOffset u) + uint blockSize < 9223372036854775808"
  shows "sint (m_fileOffset u + ucast blockSize) = sint (m_fileOffset u) + uint blockSize"
proof -
  note rc = sint_LONGLONG_range [of "m_fileOffset u"]
  note rb = uint_DWORD_range [of blockSize]
  have "- 9223372036854775808 \<le> sint (m_fileOffset u) + sint (ucast blockSize :: LONGLONG)"
    and "sint (m_fileOffset u) + sint (ucast blockSize :: LONGLONG) < 9223372036854775808"
    using assms rc rb unfolding sint_ucast_DWORD by linarith+
  then have "sint (m_fileOffset u + ucast blockSize)
      = sint (m_fileOffset u) + sint (ucast blockSize :: LONGLONG)"
    by (rule sint_add_LONGLONG)
  then show ?thesis by (simp add: sint_ucast_DWORD)
qed

lemma claims_nth:
  assumes "sint (m_fileOffset u) + int n * uint blockSize < 9223372036854775808" and "i < n"
  shows "\<exists>ub ua r. claims n blockSize totalFileSize u ! i = (ub, m_fileOffset ub, r, ua)
           \<and> IssueRead_claim blockSize totalFileSize ub = (ua, m_fileOffset ub, r)
           \<and> sint (m_fileOffset ub) = sint (m_fileOffset u) + int i * uint blockSize"
  using assms
proof (induction n arbitrary: u i)
  case 0
  then show ?case by simp
next
  case (Suc n)
  obtain u' off r where st: "IssueRead_claim blockSize totalFileSize u = (u', off, r)"
    by (cases "IssueRead_claim blockSize totalFileSize u") auto
  note o = IssueRead_claim_offset [OF st]
  show ?case
  proof (cases i)
    case 0
    with st o show ?thesis by simp
  next
    case (Suc k)
    note rb = uint_DWORD_range [of blockSize]
    have nn: "0 \<le> int n * uint blockSize" using rb by simp
    have ex: "int (Suc n) * uint blockSize = uint blockSize + int n * uint blockSize"
      by (simp add: algebra_simps)
    have one: "sint (m_fileOffset u) + uint blockSize < 9223372036854775808"
      using Suc.prems(1) nn unfolding ex by linarith
    have nx: "sint (m_fileOffset u') = sint (m_fileOffset u) + uint blockSize"
      using o sint_fileOffset_next [OF one] by simp
    have "sint (m_fileOffset u') + int n * uint blockSize < 9223372036854775808"
      using Suc.prems(1) nx unfolding ex by linarith
    moreover have "k < n" using Suc.prems(2) Suc by simp
    ultimately obtain ub ua r' where
      "claims n blockSize totalFileSize u' ! k = (ub, m_fileOffset ub, r', ua)"
      "IssueRead_claim blockSize totalFileSize ub = (ua, m_fileOffset ub, r')"
      "sint (m_fileOffset ub) = sint (m_fileOffset u') + int k * uint blockSize"
      using Suc.IH [of u' k] by blast
    then show ?thesis using st Suc nx by (simp add: algebra_simps)
  qed
qed


lemma IssueRead_uses_claim:
  assumes "\<not> m_readComplete u" and "\<not> m_errOccurred u"
  shows "IssueRead_claim blockSize totalFileSize u = (u1, curOffset, None) \<Longrightarrow>
           IssueRead rd cntxt blockSize totalFileSize u = (False, u1, cntxt, [])"
    and "IssueRead_claim blockSize totalFileSize u = (u1, curOffset, Some bytesToRead) \<Longrightarrow>
           snd (snd (snd (IssueRead rd cntxt blockSize totalFileSize u))) \<noteq> []
           \<and> hd (snd (snd (snd (IssueRead rd cntxt blockSize totalFileSize u))))
               = ReadFileEx (ucast (signed_drop_bit 32 curOffset AND 0xFFFFFFFF))
                   (ucast (curOffset AND 0xFFFFFFFF)) bytesToRead
           \<and> readOffset (fst (snd (snd (IssueRead rd cntxt blockSize totalFileSize u)))) = curOffset"
  using assms by (auto simp: IssueRead_def Let_def split: submit.splits)

lemma length_claims: "length (claims n blockSize totalFileSize u) = n"
  by (induction n arbitrary: u) (auto split: prod.splits)

lemma claim_interval_disjoint:
  assumes "sint oi = s + int i * uint b" and "sint oj = s + int j * uint b" and "i < j"
  shows "claim_interval b T oi \<inter> claim_interval b T oj = {}"
proof -
  have "int (Suc i) * uint b \<le> int j * uint b"
    using assms(3) by (intro mult_right_mono) simp_all
  moreover have "int (Suc i) * uint b = uint b + int i * uint b"
    by (simp add: algebra_simps)
  ultimately have "sint oi + uint b \<le> sint oj"
    using assms(1,2) by linarith
  then show ?thesis by (auto simp: claim_interval_def)
qed

text \<open>
  Claim C1 (offset allocator). Take any \<open>n\<close> claim steps in the order of their
  fetch-and-adds, with a block size \<open>b > 0\<close>, as long as the offsets stay within the
  range of \<open>LONGLONG\<close>. Step \<open>i\<close> claims the value \<open>curOffset\<close> that \<open>m_fileOffset\<close> had before
  its single fetch-and-add of \<open>b\<close>, which is the starting offset plus \<open>i * b\<close>. If
  \<open>curOffset \<ge> T\<close> the step reports no read and sets \<open>m_readComplete\<close>; otherwise it reads
  \<open>min(b, T - curOffset)\<close> bytes. Starting from \<open>m_fileOffset = 0\<close> every claimed offset is a
  multiple of \<open>b\<close>, and the intervals \<open>[o, o + min(b, T - o))\<close> of two different steps are
  disjoint.
\<close>

theorem IssueRead_claims_contract:
  assumes b: "blockSize \<noteq> 0"
    and nowrap: "sint (m_fileOffset u) + int n * uint blockSize < 2 ^ 63"
  shows "(\<forall>i<n. case claims n blockSize totalFileSize u ! i of (ub, curOffset, r, ua) \<Rightarrow>
            curOffset = m_fileOffset ub
          \<and> m_fileOffset ua = m_fileOffset ub + ucast blockSize
          \<and> sint curOffset = sint (m_fileOffset u) + int i * uint blockSize
          \<and> (if totalFileSize \<le>s curOffset then r = None \<and> m_readComplete ua
             else \<exists>len. r = Some len
                  \<and> uint len = min (uint blockSize) (sint totalFileSize - sint curOffset)))
       \<and> (m_fileOffset u = 0 \<longrightarrow>
            (\<forall>(ub, curOffset, r, ua) \<in> set (claims n blockSize totalFileSize u).
               uint blockSize dvd sint curOffset))
       \<and> (\<forall>i<n. \<forall>j<n. i \<noteq> j \<longrightarrow>
            claim_interval blockSize totalFileSize (fst (snd (claims n blockSize totalFileSize u ! i)))
          \<inter> claim_interval blockSize totalFileSize (fst (snd (claims n blockSize totalFileSize u ! j)))
            = {})"
proof -
  from nowrap have nw: "sint (m_fileOffset u) + int n * uint blockSize < 9223372036854775808"
    by simp
  note rb = uint_DWORD_range [of blockSize]
  have step: "\<exists>ub ua r. claims n blockSize totalFileSize u ! i = (ub, m_fileOffset ub, r, ua)
           \<and> m_fileOffset ua = m_fileOffset ub + ucast blockSize
           \<and> sint (m_fileOffset ub) = sint (m_fileOffset u) + int i * uint blockSize
           \<and> (if totalFileSize \<le>s m_fileOffset ub then r = None \<and> m_readComplete ua
              else \<exists>len. r = Some len
                  \<and> uint len = min (uint blockSize) (sint totalFileSize - sint (m_fileOffset ub)))"
    if "i < n" for i
  proof -
    from claims_nth [OF nw that, of totalFileSize] obtain ub ua r where
      c: "claims n blockSize totalFileSize u ! i = (ub, m_fileOffset ub, r, ua)"
      and st: "IssueRead_claim blockSize totalFileSize ub = (ua, m_fileOffset ub, r)"
      and off: "sint (m_fileOffset ub) = sint (m_fileOffset u) + int i * uint blockSize"
      by blast
    have "int (Suc i) * uint blockSize \<le> int n * uint blockSize"
      using that rb by (intro mult_right_mono) simp_all
    moreover have "int (Suc i) * uint blockSize = uint blockSize + int i * uint blockSize"
      by (simp add: algebra_simps)
    ultimately have one: "sint (m_fileOffset ub) + uint blockSize < 9223372036854775808"
      using nw off by linarith
    note eq = IssueRead_claim_step [OF b one, of totalFileSize]
    show ?thesis
    proof (cases "totalFileSize \<le>s m_fileOffset ub")
      case True
      with eq st c off show ?thesis by auto
    next
      case False
      then have lt: "sint (m_fileOffset ub) < sint totalFileSize"
        by (simp add: word_sle_eq)
      let ?m = "min (uint blockSize) (sint totalFileSize - sint (m_fileOffset ub))"
      have "0 \<le> ?m" "?m < 4294967296" using lt rb by auto
      then have "uint (word_of_int ?m :: DWORD) = ?m"
        by (simp add: uint_word_of_int_eq take_bit_int_eq_self)
      with False eq st c off show ?thesis by auto
    qed
  qed
  have A: "\<forall>i<n. case claims n blockSize totalFileSize u ! i of (ub, curOffset, r, ua) \<Rightarrow>
            curOffset = m_fileOffset ub
          \<and> m_fileOffset ua = m_fileOffset ub + ucast blockSize
          \<and> sint curOffset = sint (m_fileOffset u) + int i * uint blockSize
          \<and> (if totalFileSize \<le>s curOffset then r = None \<and> m_readComplete ua
             else \<exists>len. r = Some len
                  \<and> uint len = min (uint blockSize) (sint totalFileSize - sint curOffset))"
  proof (intro allI impI)
    fix i assume "i < n"
    from step [OF this] show "case claims n blockSize totalFileSize u ! i of
        (ub, curOffset, r, ua) \<Rightarrow>
            curOffset = m_fileOffset ub
          \<and> m_fileOffset ua = m_fileOffset ub + ucast blockSize
          \<and> sint curOffset = sint (m_fileOffset u) + int i * uint blockSize
          \<and> (if totalFileSize \<le>s curOffset then r = None \<and> m_readComplete ua
             else \<exists>len. r = Some len
                  \<and> uint len = min (uint blockSize) (sint totalFileSize - sint curOffset))"
      by auto
  qed
  have B: "m_fileOffset u = 0 \<longrightarrow>
            (\<forall>(ub, curOffset, r, ua) \<in> set (claims n blockSize totalFileSize u).
               uint blockSize dvd sint curOffset)"
  proof (intro impI ballI)
    fix x assume z: "m_fileOffset u = 0" and "x \<in> set (claims n blockSize totalFileSize u)"
    then obtain i where "i < n" and x: "x = claims n blockSize totalFileSize u ! i"
      by (auto simp: in_set_conv_nth length_claims)
    from step [OF this(1)] z x
    show "case x of (ub, curOffset, r, ua) \<Rightarrow> uint blockSize dvd sint curOffset"
      by auto
  qed
  have C: "claim_interval blockSize totalFileSize (fst (snd (claims n blockSize totalFileSize u ! i)))
          \<inter> claim_interval blockSize totalFileSize (fst (snd (claims n blockSize totalFileSize u ! j)))
            = {}" if i: "i < n" and j: "j < n" and ne: "i \<noteq> j" for i j
  proof -
    from step [OF i] have oi:
      "sint (fst (snd (claims n blockSize totalFileSize u ! i)))
         = sint (m_fileOffset u) + int i * uint blockSize" by auto
    from step [OF j] have oj:
      "sint (fst (snd (claims n blockSize totalFileSize u ! j)))
         = sint (m_fileOffset u) + int j * uint blockSize" by auto
    consider "i < j" | "j < i" using ne by linarith
    then show ?thesis
    proof cases
      case 1
      from claim_interval_disjoint [OF oi oj 1] show ?thesis .
    next
      case 2
      from claim_interval_disjoint [OF oj oi 2] show ?thesis by (simp add: Int_commute)
    qed
  qed
  from A B C show ?thesis by blast
qed


theorem IssueRead_claims_contract_witness:
  "(4 :: DWORD) \<noteq> 0
   \<and> sint (m_fileOffset IOUtils_init) + int 4 * uint (4 :: DWORD) < 2 ^ 63
   \<and> map (\<lambda>(ub, curOffset, r, ua). (curOffset, r)) (claims 4 4 10 IOUtils_init)
       = [(0, Some 4), (4, Some 4), (8, Some 2), (12, None)]
   \<and> claim_interval 4 10 (fst (snd (claims 4 4 10 IOUtils_init ! 1)))
       \<inter> claim_interval 4 10 (fst (snd (claims 4 4 10 IOUtils_init ! 2))) = {}"
proof -
  have h1: "(4 :: DWORD) \<noteq> 0" by simp
  have h2: "sint (m_fileOffset IOUtils_init) + int 4 * uint (4 :: DWORD) < 2 ^ 63"
    by (simp add: IOUtils_init_def)
  have ev: "map (\<lambda>(ub, curOffset, r, ua). (curOffset, r)) (claims 4 4 10 IOUtils_init)
       = [(0, Some 4), (4, Some 4), (8, Some 2), (12, None)]"
    by code_simp
  from IssueRead_claims_contract [OF h1 h2, of 10]
  have "\<forall>i<4. \<forall>j<4. i \<noteq> j \<longrightarrow>
          claim_interval 4 10 (fst (snd (claims 4 4 10 IOUtils_init ! i)))
        \<inter> claim_interval 4 10 (fst (snd (claims 4 4 10 IOUtils_init ! j))) = {}"
    by blast
  from this [rule_format, of 1 2]
  have "claim_interval 4 10 (fst (snd (claims 4 4 10 IOUtils_init ! 1)))
       \<inter> claim_interval 4 10 (fst (snd (claims 4 4 10 IOUtils_init ! 2))) = {}"
    by simp
  with h1 h2 ev show ?thesis by blast
qed

subsection \<open>The guard of IssueRead keeps the offsets in range\<close>

text \<open>
  Where the calls of \<open>IssueRead\<close> follow one another from \<open>m_fileOffset = 0\<close>, a claim is made
  only while the read latch is clear, and then the offset is less than \<open>T + b\<close>: the
  range condition of the contract above holds at every claim as soon as \<open>T + 2b\<close> is
  below \<open>2^63\<close>.
\<close>

lemma IssueRead_keeps_range:
  assumes b: "blockSize \<noteq> 0"
    and T: "sint totalFileSize + 2 * uint blockSize < 9223372036854775808"
    and inv: "claim_in_range blockSize totalFileSize u"
    and st: "IssueRead rd cntxt blockSize totalFileSize u = (ok, u', c', ev)"
  shows "claim_in_range blockSize totalFileSize u'"
proof (cases "m_readComplete u \<or> m_errOccurred u")
  case True
  with st have "u' = u" by (simp add: IssueRead_def)
  with inv show ?thesis by simp
next
  case False
  then have lt: "sint (m_fileOffset u) < sint totalFileSize + uint blockSize"
    using inv by (simp add: claim_in_range_def)
  note rb = uint_DWORD_range [of blockSize]
  have one: "sint (m_fileOffset u) + uint blockSize < 9223372036854775808"
    using lt T rb by linarith
  note step = IssueRead_claim_step [OF b one, of totalFileSize]
  note nx = sint_fileOffset_next [OF one]
  show ?thesis
  proof (cases "totalFileSize \<le>s m_fileOffset u")
    case True
    with False st step have "m_readComplete u'"
      by (auto simp: IssueRead_def)
    then show ?thesis by (simp add: claim_in_range_def)
  next
    case F: False
    then have "sint (m_fileOffset u) < sint totalFileSize" by (simp add: word_sle_eq)
    then have "sint (m_fileOffset u + ucast blockSize) < sint totalFileSize + uint blockSize"
      using nx by linarith
    moreover have "m_fileOffset u' = m_fileOffset u + ucast blockSize"
      using False F st step by (auto simp: IssueRead_def Let_def split: submit.splits if_splits)
    ultimately show ?thesis by (simp add: claim_in_range_def)
  qed
qed

lemma IssueRead_calls_keep_range:
  assumes "blockSize \<noteq> 0"
    and "sint totalFileSize + 2 * uint blockSize < 9223372036854775808"
    and "claim_in_range blockSize totalFileSize u"
  shows "claim_in_range blockSize totalFileSize (IssueRead_calls cs blockSize totalFileSize u)"
  using assms(3)
proof (induction cs arbitrary: u)
  case Nil
  then show ?case by simp
next
  case (Cons x cs)
  obtain rd cntxt where x: "x = (rd, cntxt)" by (cases x)
  obtain ok u' c' ev where st: "IssueRead rd cntxt blockSize totalFileSize u = (ok, u', c', ev)"
    by (cases "IssueRead rd cntxt blockSize totalFileSize u") auto
  from IssueRead_keeps_range [OF assms(1,2) Cons.prems st]
  have "claim_in_range blockSize totalFileSize u'" .
  from Cons.IH [OF this] show ?case using x st by simp
qed

lemma IssueRead_calls_no_overflow:
  assumes b: "blockSize \<noteq> 0" and T0: "0 \<le> sint totalFileSize"
    and T: "sint totalFileSize + 2 * uint blockSize < 2 ^ 63"
    and z: "m_fileOffset u = 0"
    and g: "\<not> m_readComplete (IssueRead_calls cs blockSize totalFileSize u)"
  shows "sint (m_fileOffset (IssueRead_calls cs blockSize totalFileSize u)) + uint blockSize < 2 ^ 63"
proof -
  note rb = uint_DWORD_range [of blockSize]
  have "0 < uint blockSize" using b rb by (simp add: order_less_le uint_0_iff)
  then have i: "claim_in_range blockSize totalFileSize u"
    using z T0 by (simp add: claim_in_range_def)
  from T have T': "sint totalFileSize + 2 * uint blockSize < 9223372036854775808" by simp
  from IssueRead_calls_keep_range [OF b T' i, of cs] g
  have "sint (m_fileOffset (IssueRead_calls cs blockSize totalFileSize u))
          < sint totalFileSize + uint blockSize"
    by (simp add: claim_in_range_def)
  with T' rb have "sint (m_fileOffset (IssueRead_calls cs blockSize totalFileSize u)) + uint blockSize
      < 9223372036854775808" by linarith
  then show ?thesis by simp
qed

subsection \<open>Initialize and StartCopy\<close>

lemmas Initialize_defs = Initialize_def and_then_def Initialize_params_def Initialize_open_def
  Initialize_sizes_def Initialize_sector_def GetDiskOrDriveSize_def GetVolumeSectorSize_def
  BlockCopier_init_def IOUtils_init_def DEFAULT_BLOCK_SIZE_MB_def DEFAULT_MAX_OUTSTANDING_IO_def
  IOContext_new_def Let_def word_sle_eq word_sless_alt upt_conv_Cons

lemma ready_engine_result: "fst (Initialize good_env 2 1 BlockCopier_init) = None"
  by (simp add: Initialize_defs good_env_def)

lemma ready_engine_fields:
  "m_hSrc ready_engine = Some 1" "m_hDest ready_engine = Some 2"
  "length (m_cntxts ready_engine) = 2" "m_numOfThreads ready_engine = 2"
  "m_blockSize ready_engine = 1048576" "m_destSectorSize ready_engine = 4096"
  by (simp_all add: ready_engine_def Initialize_defs good_env_def)

lemmas StartCopy_defs = StartCopy_trace_def Let_def getErrorOccuredInfo_def
  setErrorOccuredInfo_def setReadCompleteInfo_def setPendingIOs_def setFileOffset_def

text \<open>The loop of joins ends when every \<open>join\<close> returns.\<close>

lemma join_loop_ends:
  "\<forall>i \<in> set xs. i < n \<and> returns i \<Longrightarrow>
     join_loop returns (replicate n True) xs = (map JoinWorker xs, True)"
  by (induction xs) simp_all

lemma join_loop_all:
  assumes "list_all returns [0 ..< n]"
  shows "join_loop returns (replicate n True) [0 ..< n] = (map JoinWorker [0 ..< n], True)"
  using assms by (intro join_loop_ends) (simp add: list_all_iff)

text \<open>
  Claim C2. When \<open>StartCopy\<close> gets past its initial check, the monitoring loop ends and
  every worker is joined, the call returns, after the flush of the destination, and
  it returns true if and only if \<open>m_errOccurred\<close> is false at that point. The latch is set
  then exactly if the workers left it set or the final \<open>FlushFileBuffers\<close> failed: a failed
  flush alone makes \<open>StartCopy\<close> return false.
\<close>

theorem StartCopy_result:
  assumes init: "m_hSrc e \<noteq> None" "m_hDest e \<noteq> None" "m_cntxts e \<noteq> []"
    and exits: "monitor (polls env) = Some u"
    and joins: "list_all (join_returns env
                            (wake_ups env (replicate (nat (sint (m_numOfThreads e))) True)
                               (nat (sint (m_numOfThreads e)))))
                  [0 ..< nat (sint (m_numOfThreads e))]"
  shows "\<exists>e' ev. StartCopy env e = Some (\<not> getErrorOccuredInfo e', e', ev)
           \<and> FlushFileBuffers \<in> set ev
           \<and> getErrorOccuredInfo e'
               = (m_errOccurred (atomics (after_join env)) \<or> \<not> FlushFileBuffers_ok env)"
  using init exits join_loop_all [OF joins]
  by (auto simp: StartCopy_def StartCopy_defs)


lemma ready_engine_initialised:
  "m_hSrc ready_engine \<noteq> None" "m_hDest ready_engine \<noteq> None" "m_cntxts ready_engine \<noteq> []"
  using ready_engine_fields by auto

lemma ready_engine_threads: "[0 ..< nat (sint (m_numOfThreads ready_engine))] = [0, 1]"
  by (simp add: ready_engine_fields upt_conv_Cons)

theorem StartCopy_result_witness:
  "m_hSrc ready_engine \<noteq> None \<and> m_hDest ready_engine \<noteq> None \<and> m_cntxts ready_engine \<noteq> []
   \<and> monitor (polls flush_failure_run) = Some done_state
   \<and> list_all (join_returns flush_failure_run
                  (wake_ups flush_failure_run
                     (replicate (nat (sint (m_numOfThreads ready_engine))) True)
                     (nat (sint (m_numOfThreads ready_engine)))))
        [0 ..< nat (sint (m_numOfThreads ready_engine))]
   \<and> \<not> m_errOccurred (atomics (after_join flush_failure_run))
   \<and> (\<exists>e' ev. StartCopy flush_failure_run ready_engine = Some (False, e', ev))"
proof -
  have m: "monitor (polls flush_failure_run) = Some done_state"
    by (simp add: flush_failure_run_def clean_run_def keep_monitoring_def running_state_def
        done_state_def word_sless_alt)
  have j: "list_all (join_returns flush_failure_run
                      (wake_ups flush_failure_run
                         (replicate (nat (sint (m_numOfThreads ready_engine))) True)
                         (nat (sint (m_numOfThreads ready_engine)))))
             [0 ..< nat (sint (m_numOfThreads ready_engine))]"
    by (simp add: ready_engine_threads join_returns_def flush_failure_run_def clean_run_def)
  have a: "\<not> m_errOccurred (atomics (after_join flush_failure_run))"
    "\<not> FlushFileBuffers_ok flush_failure_run"
    by (simp_all add: flush_failure_run_def clean_run_def done_state_def)
  from StartCopy_result [OF ready_engine_initialised m j] a
  have "\<exists>e' ev. StartCopy flush_failure_run ready_engine = Some (False, e', ev)"
    by auto
  with ready_engine_initialised m j a(1) show ?thesis by blast
qed

text \<open>
  The two ways out of the loop of joins, for an engine that passed the initial check
  and a monitoring loop that ended.
\<close>

lemma StartCopy_trace_blocked:
  assumes "m_hSrc e \<noteq> None" "m_hDest e \<noteq> None" "m_cntxts e \<noteq> []"
    and "monitor (polls env) = Some u"
    and "join_loop (join_returns env
                      (wake_ups env (replicate (nat (sint (m_numOfThreads e))) True)
                         (nat (sint (m_numOfThreads e)))))
           (replicate (nat (sint (m_numOfThreads e))) True)
           [0 ..< nat (sint (m_numOfThreads e))] = (joins, False)"
  shows "StartCopy_trace env e
          = (map LaunchWorker [0 ..< nat (sint (m_numOfThreads e))]
             @ wake_ups env (replicate (nat (sint (m_numOfThreads e))) True)
                 (nat (sint (m_numOfThreads e)))
             @ joins, None)"
  using assms by (simp add: StartCopy_defs)

lemma StartCopy_trace_joined:
  assumes "m_hSrc e \<noteq> None" "m_hDest e \<noteq> None" "m_cntxts e \<noteq> []"
    and "monitor (polls env) = Some u"
    and "join_loop (join_returns env
                      (wake_ups env (replicate (nat (sint (m_numOfThreads e))) True)
                         (nat (sint (m_numOfThreads e)))))
           (replicate (nat (sint (m_numOfThreads e))) True)
           [0 ..< nat (sint (m_numOfThreads e))] = (joins, True)"
  shows "fst (StartCopy_trace env e)
          = map LaunchWorker [0 ..< nat (sint (m_numOfThreads e))]
            @ wake_ups env (replicate (nat (sint (m_numOfThreads e))) True)
                (nat (sint (m_numOfThreads e)))
            @ joins
            @ (if FlushFileBuffers_ok env then [FlushFileBuffers] else [FlushFileBuffers, LogError])
            @ (if m_errOccurred (atomics (after_join env)) \<or> \<not> FlushFileBuffers_ok env
               then [LogError] else [])"
    and "returned (StartCopy env e)
          = Some (\<not> m_errOccurred (atomics (after_join env)) \<and> FlushFileBuffers_ok env)"
  using assms by (auto simp: StartCopy_def StartCopy_defs returned_def)

lemma three_worker_engine_result:
  "Initialize good_env 3 1 BlockCopier_init
     = (None, three_worker_engine, snd (snd (Initialize good_env 3 1 BlockCopier_init)))"
  by (simp add: three_worker_engine_def Initialize_defs good_env_def)

lemma three_worker_engine_fields:
  "m_hSrc three_worker_engine = Some 1" "m_hDest three_worker_engine = Some 2"
  "length (m_cntxts three_worker_engine) = 3" "m_numOfThreads three_worker_engine = 3"
  by (simp_all add: three_worker_engine_def Initialize_defs good_env_def)

lemma three_worker_engine_initialised:
  "m_hSrc three_worker_engine \<noteq> None" "m_hDest three_worker_engine \<noteq> None"
  "m_cntxts three_worker_engine \<noteq> []"
  using three_worker_engine_fields by auto

lemma three_worker_engine_threads: "nat (sint (m_numOfThreads three_worker_engine)) = 3"
  by (simp add: three_worker_engine_fields)

lemma monitor_waiting_error_run: "monitor (polls waiting_error_run) = Some late_failure_state"
  by (simp add: waiting_error_run_def keep_monitoring_def running_state_def last_write_state_def
      late_failure_state_def word_sless_alt)

lemma monitor_waiting_clean_run: "monitor (polls waiting_clean_run) = Some drained_state"
  by (simp add: waiting_clean_run_def keep_monitoring_def running_state_def last_write_state_def
      drained_state_def word_sless_alt)

lemma wake_ups_waiting_error_run: "wake_ups waiting_error_run (replicate 3 True) 3 = []"
  by (simp add: wake_ups_def waiting_error_run_def late_failure_state_def)

lemma wake_ups_waiting_clean_run:
  "wake_ups waiting_clean_run (replicate 3 True) 3
     = [QueueUserAPC 0, QueueUserAPC 1, QueueUserAPC 2]"
  by (simp add: wake_ups_def wake_worker_def waiting_clean_run_def drained_state_def
      last_write_state_def upt_conv_Cons)

lemma join_loop_waiting_error_run:
  "join_loop (join_returns waiting_error_run []) (replicate 3 True) [0 ..< 3]
     = ([JoinWorker 0, JoinWorker 1], False)"
  by (simp add: join_returns_def waiting_error_run_def upt_conv_Cons)

lemma join_loop_waiting_clean_run:
  "join_loop (join_returns waiting_clean_run [QueueUserAPC 0, QueueUserAPC 1, QueueUserAPC 2])
     (replicate 3 True) [0 ..< 3]
     = ([JoinWorker 0, JoinWorker 1, JoinWorker 2], True)"
  by (simp add: join_returns_def waiting_clean_run_def worker_continues_def drained_state_def
      last_write_state_def upt_conv_Cons)

text \<open>
  Claim C5. The claim fails on the exit by an error, and the program does not end
  there. The wake-ups are under the guard of line 261: when the monitoring loop is left
  because \<open>m_errOccurred\<close> is set, no \<open>QueueUserAPC\<close> is issued. In \<open>waiting_error_run\<close>
  worker 1 is in \<open>SleepEx(INFINITE, TRUE)\<close> with nothing outstanding when the write of
  worker 2 fails: a wake-up would let it leave (the condition of its loop is false on
  the atomics), but none is sent, the controlling thread joins worker 0 and then waits
  in the \<open>join\<close> of worker 1 for ever; \<open>StartCopy\<close> and the program do not return. In
  \<open>waiting_clean_run\<close>, where the same write succeeds, the three wake-ups are queued
  before the joins and the call returns true.
\<close>

theorem StartCopy_error_exit_sends_no_wake_up:
  "monitor (polls waiting_error_run) = Some late_failure_state
   \<and> m_errOccurred late_failure_state
   \<and> worker waiting_error_run 1 = Waiting late_failure_state
   \<and> \<not> worker_continues late_failure_state
   \<and> StartCopy_trace waiting_error_run three_worker_engine
       = ([LaunchWorker 0, LaunchWorker 1, LaunchWorker 2, JoinWorker 0, JoinWorker 1], None)
   \<and> StartCopy waiting_error_run three_worker_engine = None
   \<and> wmain (Custom 3 1) True good_env waiting_error_run = None
   \<and> monitor (polls waiting_clean_run) = Some drained_state
   \<and> worker waiting_clean_run 1 = Waiting drained_state
   \<and> fst (StartCopy_trace waiting_clean_run three_worker_engine)
       = [LaunchWorker 0, LaunchWorker 1, LaunchWorker 2,
          QueueUserAPC 0, QueueUserAPC 1, QueueUserAPC 2,
          JoinWorker 0, JoinWorker 1, JoinWorker 2, FlushFileBuffers]
   \<and> returned (StartCopy waiting_clean_run three_worker_engine) = Some True"
proof -
  have f: "m_errOccurred late_failure_state" "\<not> worker_continues late_failure_state"
    by (simp_all add: late_failure_state_def worker_continues_def)
  have w: "worker waiting_error_run 1 = Waiting late_failure_state"
    "worker waiting_clean_run 1 = Waiting drained_state"
    by (simp_all add: waiting_error_run_def waiting_clean_run_def)
  have t: "StartCopy_trace waiting_error_run three_worker_engine
       = ([LaunchWorker 0, LaunchWorker 1, LaunchWorker 2, JoinWorker 0, JoinWorker 1], None)"
    using StartCopy_trace_blocked [OF three_worker_engine_initialised monitor_waiting_error_run,
        of "[JoinWorker 0, JoinWorker 1]"]
    unfolding three_worker_engine_threads wake_ups_waiting_error_run
    using join_loop_waiting_error_run by (simp add: upt_conv_Cons)
  then have s: "StartCopy waiting_error_run three_worker_engine = None"
    by (simp add: StartCopy_def)
  have "\<not> (3 :: cint) \<le>s 0 \<and> \<not> (1 :: cint) \<le>s 0"
    by (simp add: word_sle_eq)
  moreover obtain ev where "Initialize good_env 3 1 BlockCopier_init = (None, three_worker_engine, ev)"
    using three_worker_engine_result by blast
  ultimately have m: "wmain (Custom 3 1) True good_env waiting_error_run = None"
    using s by (simp add: wmain_def run_copier_def)
  have a: "\<not> m_errOccurred (atomics (after_join waiting_clean_run))"
    "FlushFileBuffers_ok waiting_clean_run"
    by (simp_all add: waiting_clean_run_def drained_state_def last_write_state_def)
  note c = StartCopy_trace_joined [OF three_worker_engine_initialised monitor_waiting_clean_run,
      of "[JoinWorker 0, JoinWorker 1, JoinWorker 2]",
      unfolded three_worker_engine_threads wake_ups_waiting_clean_run,
      OF join_loop_waiting_clean_run]
  have e: "fst (StartCopy_trace waiting_clean_run three_worker_engine)
       = [LaunchWorker 0, LaunchWorker 1, LaunchWorker 2,
          QueueUserAPC 0, QueueUserAPC 1, QueueUserAPC 2,
          JoinWorker 0, JoinWorker 1, JoinWorker 2, FlushFileBuffers]"
    unfolding c(1) using a by (simp add: upt_conv_Cons)
  have r: "returned (StartCopy waiting_clean_run three_worker_engine) = Some True"
    unfolding c(2) using a by simp
  from f w t s m e r monitor_waiting_error_run monitor_waiting_clean_run
  show ?thesis by blast
qed

subsection \<open>The completion handlers\<close>

lemmas engine_accessors = getErrorOccuredInfo_def getReadCompleteInfo_def getPendingIOs_def
  setErrorOccuredInfo_def setReadCompleteInfo_def setPendingIOs_def

text \<open>
  Claim C4, amended. For a completion on a valid context whose code is end-of-source, or
  whose code is success with no byte transferred, the handler decrements \<open>m_pendingIOs\<close>,
  sets the context's \<open>completed\<close> flag and returns: it issues no write, logs nothing and
  leaves \<open>m_errOccurred\<close> as it was. It sets \<open>m_readComplete\<close> if and only if the transferred
  byte count is 0; an end-of-source completion that carries bytes leaves the latch
  unchanged.
\<close>

theorem OnReadCompletion_end_of_source:
  assumes "curInst cntxt"
    and "errCode = ERROR_HANDLE_EOF \<or> (errCode = ERROR_SUCCESS \<and> n = 0)"
  shows "case OnReadCompletion wr errCode n (Some cntxt) e of
           (e', c', ev) \<Rightarrow>
             c' = Some (cntxt\<lparr>completed := True\<rparr>)
           \<and> ev = []
           \<and> getErrorOccuredInfo e' = getErrorOccuredInfo e
           \<and> getReadCompleteInfo e' = (n = 0 \<or> getReadCompleteInfo e)
           \<and> getPendingIOs e' = getPendingIOs e - 1"
  using assms
  by (auto simp: OnReadCompletion_def Let_def engine_accessors ERROR_HANDLE_EOF_def
      ERROR_SUCCESS_def)

lemma busy_context_valid: "curInst busy_context"
  by (simp add: busy_context_def IOContext_new_def)

lemma running_engine_flags:
  "getReadCompleteInfo running_engine = False" "getErrorOccuredInfo running_engine = False"
  "getPendingIOs running_engine = 2"
  by (simp_all add: running_engine_def running_state_def engine_accessors)

text \<open>
  The claim as stated fails for an end-of-source completion with 512 bytes: the read
  latch stays clear.
\<close>

theorem OnReadCompletion_end_of_source_counterexample:
  "curInst busy_context
   \<and> getReadCompleteInfo
        (fst (OnReadCompletion Queued ERROR_HANDLE_EOF 512 (Some busy_context) running_engine))
       = False"
  using busy_context_valid running_engine_flags
  by (simp add: OnReadCompletion_def Let_def engine_accessors ERROR_HANDLE_EOF_def
      ERROR_SUCCESS_def)

theorem OnReadCompletion_end_of_source_witness:
  "curInst busy_context
   \<and> fst (snd (OnReadCompletion Queued ERROR_HANDLE_EOF 0 (Some busy_context) running_engine))
       = Some (busy_context\<lparr>completed := True\<rparr>)
   \<and> snd (snd (OnReadCompletion Queued ERROR_HANDLE_EOF 0 (Some busy_context) running_engine)) = []
   \<and> getReadCompleteInfo
        (fst (OnReadCompletion Queued ERROR_HANDLE_EOF 0 (Some busy_context) running_engine))
   \<and> getErrorOccuredInfo
        (fst (OnReadCompletion Queued ERROR_HANDLE_EOF 0 (Some busy_context) running_engine))
       = False"
proof -
  have h: "ERROR_HANDLE_EOF = ERROR_HANDLE_EOF \<or> (ERROR_HANDLE_EOF = ERROR_SUCCESS \<and> (0 :: DWORD) = 0)"
    by simp
  from OnReadCompletion_end_of_source [OF busy_context_valid h, where wr = Queued and e = running_engine]
    busy_context_valid running_engine_flags
  show ?thesis by (auto split: prod.splits)
qed

lemma IssueWrite_refused:
  assumes "\<not> m_errOccurred u"
  shows "IssueWrite (Refused err) cntxt bytesToWrite u =
           (False, u\<lparr>m_errOccurred := True\<rparr>, cntxt\<lparr>completed := False\<rparr>,
            [WriteFileEx (OffsetHigh cntxt) (Offset cntxt) bytesToWrite, LogError])"
  using assms by (simp add: IssueWrite_def IssueWrite_prepare_def Let_def)

lemma IssueWrite_prepare_increments:
  "IssueWrite_prepare cntxt u = (u1, c1) \<Longrightarrow> m_pendingIOs u1 = m_pendingIOs u + 1"
  by (auto simp: IssueWrite_prepare_def)

text \<open>
  Claim C8 at the failing input: \<open>WriteFileEx\<close> refuses the request with error 5. The error
  latch is set and \<open>m_pendingIOs\<close> is back at its value, but the context's \<open>completed\<close> flag
  is left false, by \<open>IssueWrite\<close> and by the read-completion handler that called it.
\<close>

theorem IssueWrite_refused_leaves_completed_clear:
  "IssueWrite (Refused 5) (busy_context\<lparr>completed := True\<rparr>) 4096 running_state
     = (False, running_state\<lparr>m_errOccurred := True\<rparr>, busy_context\<lparr>completed := False\<rparr>,
        [WriteFileEx 0 1048576 4096, LogError])
   \<and> completed (busy_context\<lparr>completed := False\<rparr>) = False
   \<and> fst (snd (OnReadCompletion (Refused 5) ERROR_SUCCESS 4096 (Some busy_context) running_engine))
       = Some (busy_context\<lparr>completed := False, bytesTransferred := 4096\<rparr>)"
proof -
  have ne: "\<not> m_errOccurred running_state" by (simp add: running_state_def)
  have a: "IssueWrite (Refused 5) (busy_context\<lparr>completed := True\<rparr>) 4096 running_state
     = (False, running_state\<lparr>m_errOccurred := True\<rparr>, busy_context\<lparr>completed := False\<rparr>,
        [WriteFileEx 0 1048576 4096, LogError])"
    unfolding IssueWrite_refused [OF ne] by (simp add: busy_context_def IOContext_new_def)
  have s: "m_destSectorSize running_engine = 4096" "ioUtilsObj running_engine = running_state"
    by (simp_all add: running_engine_def ready_engine_fields)
  have b: "fst (snd (OnReadCompletion (Refused 5) ERROR_SUCCESS 4096 (Some busy_context) running_engine))
       = Some (busy_context\<lparr>completed := False, bytesTransferred := 4096\<rparr>)"
    using busy_context_valid ne
    by (simp add: OnReadCompletion_def OnReadCompletion_pad_def OnReadCompletion_write_def Let_def
        engine_accessors ERROR_SUCCESS_def s IssueWrite_refused)
  from a b show ?thesis by simp
qed

subsection \<open>Initialize and the command line\<close>

lemma GetDiskOrDriveSize_no_io: "\<not> list_ex is_io (snd (GetDiskOrDriveSize env isSrc))"
  by (simp add: GetDiskOrDriveSize_def split: option.splits)

lemma Initialize_params_cases:
  "Initialize_params nThreads blockSizeMB e =
     (if nThreads \<le>s 0 \<or> 64 <s nThreads
      then (Some InvalidThreads,
            e\<lparr>m_numOfThreads := nThreads, m_blockSize := blockSizeMB * 1024 * 1024\<rparr>, [LogError])
      else if blockSizeMB * 1024 * 1024 = 0
      then (Some InvalidBlockSize,
            e\<lparr>m_numOfThreads := nThreads, m_blockSize := blockSizeMB * 1024 * 1024\<rparr>, [LogError])
      else (None, e\<lparr>m_numOfThreads := nThreads, m_blockSize := blockSizeMB * 1024 * 1024\<rparr>, []))"
  by (simp add: Initialize_params_def Let_def)

lemma Initialize_open_cases:
  "Initialize_open env e =
     (if CreateFileW_src_result env = None
      then (Some SrcOpenFailed, e\<lparr>m_hSrc := None\<rparr>, [CreateFileW_src, LogError])
      else if CreateFileW_dest_result env = None
      then (Some DestOpenFailed, e\<lparr>m_hSrc := CreateFileW_src_result env, m_hDest := None\<rparr>,
            [CreateFileW_src, CreateFileW_dest, LogError, CloseHandle_src])
      else (None, e\<lparr>m_hSrc := CreateFileW_src_result env,
                     m_hDest := CreateFileW_dest_result env\<rparr>,
            [CreateFileW_src, CreateFileW_dest]))"
  by (simp add: Initialize_open_def Let_def)

lemma Initialize_sizes_empty:
  assumes "fst (GetDiskOrDriveSize env True) = 0"
  shows "Initialize_sizes env e =
           (Some SrcSizeFailed, e\<lparr>m_srcFileSize := 0\<rparr>,
            snd (GetDiskOrDriveSize env True) @ [LogError, CloseHandle_src, CloseHandle_dest])"
  using assms by (cases "GetDiskOrDriveSize env True") (simp add: Initialize_sizes_def Let_def)

lemma Initialize_empty_source:
  assumes "fst (GetDiskOrDriveSize env True) = 0"
  shows "\<exists>err e' ev. Initialize env nThreads blockSizeMB e = (Some err, e', ev)
           \<and> \<not> list_ex is_io ev \<and> m_workerThreads e' = m_workerThreads e"
  using GetDiskOrDriveSize_no_io [of env True]
  by (simp add: Initialize_def and_then_def Initialize_params_cases Initialize_open_cases
      Initialize_sizes_empty [OF assms])

text \<open>The destructor submits nothing, and with no thread in the engine it returns.\<close>

lemma join_loop_no_io: "\<not> list_ex is_io (fst (join_loop returns workerThreads xs))"
  by (induction xs) (auto split: prod.splits)

lemma BlockCopier_destroy_no_io:
  "BlockCopier_destroy returns e = Some evd \<Longrightarrow> \<not> list_ex is_io evd"
  using join_loop_no_io [of returns "m_workerThreads e" "[0 ..< length (m_workerThreads e)]"]
  by (auto simp: BlockCopier_destroy_def Let_def split: if_splits)

lemma BlockCopier_destroy_no_threads:
  "m_workerThreads e = [] \<Longrightarrow> \<exists>evd. BlockCopier_destroy returns e = Some evd"
  by (simp add: BlockCopier_destroy_def)

text \<open>
  Claim C6, amended. When the size query on the source gives 0 bytes, a run that the
  user lets proceed ends with exit code 1: \<open>Initialize\<close> returns false (it takes a size
  of 0 for a failed query), no worker is launched and no read or write is submitted.
\<close>

theorem empty_source_rejected:
  assumes "fst (GetDiskOrDriveSize ienv True) = 0"
  shows "\<exists>ev. wmain args True ienv cenv = Some (1, ev) \<and> \<not> list_ex is_io ev"
proof -
  have "\<exists>ev. run_copier ienv cenv numThreads blockSizeMB = Some (1, ev) \<and> \<not> list_ex is_io ev"
    for numThreads blockSizeMB
  proof -
    from Initialize_empty_source [OF assms, of numThreads blockSizeMB BlockCopier_init]
    obtain err e' ev where i: "Initialize ienv numThreads blockSizeMB BlockCopier_init = (Some err, e', ev)"
      and ev: "\<not> list_ex is_io ev" and w: "m_workerThreads e' = []"
      by (auto simp: BlockCopier_init_def)
    from BlockCopier_destroy_no_threads [OF w]
    obtain evd where d: "BlockCopier_destroy (join_returns cenv []) e' = Some evd" by blast
    from BlockCopier_destroy_no_io [OF d] ev i d show ?thesis
      by (simp add: run_copier_def)
  qed
  then show ?thesis
    by (cases args) (auto simp: wmain_def)
qed

lemma empty_source_size: "fst (GetDiskOrDriveSize empty_source_env True) = 0"
  by (simp add: GetDiskOrDriveSize_def empty_source_env_def good_env_def)

text \<open>
  The claim as stated fails on an empty source: the run with the default parameters
  reports failure. \<open>Initialize\<close> closes the two handles before it returns false, and the
  destructor of the engine closes them again when \<open>main\<close> returns.
\<close>

theorem empty_source_rejected_counterexample:
  "fst (GetDiskOrDriveSize empty_source_env True) = 0
   \<and> wmain UseDefault True empty_source_env clean_run
       = Some (1, [CreateFileW_src, CreateFileW_dest, QuerySize_src, LogError,
                   CloseHandle_src, CloseHandle_dest, LogError,
                   CloseHandle_src, CloseHandle_dest])"
proof -
  have "Initialize empty_source_env DEFAULT_MAX_OUTSTANDING_IO DEFAULT_BLOCK_SIZE_MB BlockCopier_init
      = (Some SrcSizeFailed,
         BlockCopier_init\<lparr>m_hSrc := Some 1, m_hDest := Some 2, m_srcFileSize := 0\<rparr>,
         [CreateFileW_src, CreateFileW_dest, QuerySize_src, LogError,
          CloseHandle_src, CloseHandle_dest])"
    by (simp add: Initialize_def and_then_def Initialize_params_cases Initialize_open_cases
        Initialize_sizes_empty [OF empty_source_size] DEFAULT_MAX_OUTSTANDING_IO_def
        DEFAULT_BLOCK_SIZE_MB_def word_sle_eq word_sless_alt)
      (simp add: GetDiskOrDriveSize_def empty_source_env_def good_env_def BlockCopier_init_def
        DEFAULT_MAX_OUTSTANDING_IO_def DEFAULT_BLOCK_SIZE_MB_def)
  moreover have "BlockCopier_destroy (join_returns clean_run [])
                   (BlockCopier_init\<lparr>m_hSrc := Some 1, m_hDest := Some 2, m_srcFileSize := 0\<rparr>)
                 = Some [CloseHandle_src, CloseHandle_dest]"
    by (simp add: BlockCopier_destroy_def BlockCopier_init_def)
  ultimately show ?thesis
    by (simp add: wmain_def run_copier_def empty_source_size)
qed

theorem empty_source_rejected_witness:
  "fst (GetDiskOrDriveSize empty_source_env True) = 0
   \<and> map_option fst (wmain UseDefault True empty_source_env clean_run) = Some 1"
  using empty_source_rejected [OF empty_source_size, of UseDefault clean_run] empty_source_size
  by auto


lemma Initialize_sizes_cases:
  "Initialize_sizes env e =
     (if fst (GetDiskOrDriveSize env True) = 0
      then (Some SrcSizeFailed, e\<lparr>m_srcFileSize := 0\<rparr>,
            snd (GetDiskOrDriveSize env True) @ [LogError, CloseHandle_src, CloseHandle_dest])
      else if fst (GetDiskOrDriveSize env False) = 0
      then (Some DestCapacityFailed,
            e\<lparr>m_srcFileSize := fst (GetDiskOrDriveSize env True), m_destCapacity := 0\<rparr>,
            snd (GetDiskOrDriveSize env True) @ snd (GetDiskOrDriveSize env False)
            @ [LogError, CloseHandle_src, CloseHandle_dest])
      else if fst (GetDiskOrDriveSize env False) <s fst (GetDiskOrDriveSize env True)
      then (Some DestTooSmall,
            e\<lparr>m_srcFileSize := fst (GetDiskOrDriveSize env True),
              m_destCapacity := fst (GetDiskOrDriveSize env False)\<rparr>,
            snd (GetDiskOrDriveSize env True) @ snd (GetDiskOrDriveSize env False)
            @ [LogError, LogError, CloseHandle_src, CloseHandle_dest])
      else (None,
            e\<lparr>m_srcFileSize := fst (GetDiskOrDriveSize env True),
              m_destCapacity := fst (GetDiskOrDriveSize env False)\<rparr>,
            snd (GetDiskOrDriveSize env True) @ snd (GetDiskOrDriveSize env False)))"
  by (cases "GetDiskOrDriveSize env True"; cases "GetDiskOrDriveSize env False")
     (simp add: Initialize_sizes_def Let_def)

lemma Initialize_sector_reason:
  "fst (Initialize_sector env e) \<in> {None, Some UserDeclined, Some BlockNotSectorMultiple}"
  by (cases "GetVolumeSectorSize env") (simp add: Initialize_sector_def Let_def)

lemma and_then_fst:
  "fst (and_then r f) = (case fst r of Some err \<Rightarrow> Some err | None \<Rightarrow> fst (f (fst (snd r))))"
  by (cases r; cases "fst r") (auto simp: and_then_def split: prod.splits)

lemma and_then_reason:
  "fst (and_then r f) = Some x \<Longrightarrow> fst r = Some x \<or> (\<exists>e. fst (f e) = Some x)"
  by (cases "fst r") (auto simp: and_then_fst)

lemma Initialize_contexts_reason:
  "fst (Initialize_contexts env is e) \<in> {None, Some BufferAllocFailed, Some BufferMisaligned}"
  by (induction "is" arbitrary: e) (auto simp: Let_def and_then_fst)

text \<open>
  Claim C7. With valid parameters and both handles open, \<open>Initialize\<close> returns false
  whenever the destination's capacity is smaller than the source's size (as signed
  64-bit numbers): its events end with the closing of the two handles and contain no
  read, write or worker launch, and when both sizes are non-zero the return is the one
  of the capacity check. When the two sizes are equal, \<open>Initialize\<close> never returns by the
  capacity check.
\<close>

theorem Initialize_capacity_check:
  assumes params: "\<not> (nThreads \<le>s 0 \<or> 64 <s nThreads)" "blockSizeMB * 1024 * 1024 \<noteq> 0"
    and opens: "CreateFileW_src_result env \<noteq> None" "CreateFileW_dest_result env \<noteq> None"
  shows "(fst (GetDiskOrDriveSize env False) <s fst (GetDiskOrDriveSize env True) \<longrightarrow>
            fst (Initialize env nThreads blockSizeMB e) \<noteq> None
          \<and> (fst (GetDiskOrDriveSize env True) \<noteq> 0 \<and> fst (GetDiskOrDriveSize env False) \<noteq> 0 \<longrightarrow>
               fst (Initialize env nThreads blockSizeMB e) = Some DestTooSmall)
          \<and> (\<exists>ev. snd (snd (Initialize env nThreads blockSizeMB e))
                     = ev @ [CloseHandle_src, CloseHandle_dest])
          \<and> \<not> list_ex is_io (snd (snd (Initialize env nThreads blockSizeMB e))))
       \<and> (fst (GetDiskOrDriveSize env False) = fst (GetDiskOrDriveSize env True) \<longrightarrow>
            fst (Initialize env nThreads blockSizeMB e) \<noteq> Some DestTooSmall)"
proof -
  let ?e2 = "e\<lparr>m_numOfThreads := nThreads, m_blockSize := blockSizeMB * 1024 * 1024,
                m_hSrc := CreateFileW_src_result env, m_hDest := CreateFileW_dest_result env\<rparr>"
  have start: "and_then (and_then (Initialize_params nThreads blockSizeMB e) (Initialize_open env))
                 (Initialize_sizes env)
               = (case Initialize_sizes env ?e2 of
                    (r, e', ev) \<Rightarrow> (r, e', [CreateFileW_src, CreateFileW_dest] @ ev))"
    using params opens
    by (auto simp: and_then_def Initialize_params_cases Initialize_open_cases)
  have small: "fst (Initialize env nThreads blockSizeMB e) \<noteq> None
          \<and> (fst (GetDiskOrDriveSize env True) \<noteq> 0 \<and> fst (GetDiskOrDriveSize env False) \<noteq> 0 \<longrightarrow>
               fst (Initialize env nThreads blockSizeMB e) = Some DestTooSmall)
          \<and> (\<exists>ev. snd (snd (Initialize env nThreads blockSizeMB e))
                     = ev @ [CloseHandle_src, CloseHandle_dest])
          \<and> \<not> list_ex is_io (snd (snd (Initialize env nThreads blockSizeMB e)))"
    if lt: "fst (GetDiskOrDriveSize env False) <s fst (GetDiskOrDriveSize env True)"
    using lt GetDiskOrDriveSize_no_io [of env True] GetDiskOrDriveSize_no_io [of env False]
    unfolding Initialize_def start Initialize_sizes_cases
    by (simp add: and_then_def)
  have equal: "fst (Initialize env nThreads blockSizeMB e) \<noteq> Some DestTooSmall"
    if eq: "fst (GetDiskOrDriveSize env False) = fst (GetDiskOrDriveSize env True)"
  proof -
    have "\<not> fst (GetDiskOrDriveSize env False) <s fst (GetDiskOrDriveSize env True)"
      using eq by (simp add: word_sless_alt)
    then have "fst (and_then (and_then (Initialize_params nThreads blockSizeMB e)
                      (Initialize_open env)) (Initialize_sizes env))
                \<in> {None, Some SrcSizeFailed, Some DestCapacityFailed}"
      unfolding start Initialize_sizes_cases by simp
    then have three: "fst (and_then (and_then (Initialize_params nThreads blockSizeMB e)
                      (Initialize_open env)) (Initialize_sizes env)) \<noteq> Some DestTooSmall"
      by auto
    show ?thesis
    proof
      assume "fst (Initialize env nThreads blockSizeMB e) = Some DestTooSmall"
      from and_then_reason [OF this [unfolded Initialize_def]]
      consider "fst (and_then (and_then (and_then (Initialize_params nThreads blockSizeMB e)
                      (Initialize_open env)) (Initialize_sizes env)) (Initialize_sector env))
                = Some DestTooSmall"
        | ixs e' where "fst (Initialize_contexts env ixs e') = Some DestTooSmall"
        by blast
      then show False
      proof cases
        case 1
        from and_then_reason [OF 1] three
        obtain e' where "fst (Initialize_sector env e') = Some DestTooSmall" by blast
        with Initialize_sector_reason [of env e'] show False by simp
      next
        case 2
        with Initialize_contexts_reason [of env ixs e'] show False by simp
      qed
    qed
  qed
  from small equal show ?thesis by blast
qed


lemma small_dest_sizes:
  "fst (GetDiskOrDriveSize small_dest_env True) = 3145728"
  "fst (GetDiskOrDriveSize small_dest_env False) = 3145727"
  by (simp_all add: GetDiskOrDriveSize_def small_dest_env_def good_env_def)

lemma good_env_sizes:
  "fst (GetDiskOrDriveSize good_env True) = 3145728"
  "fst (GetDiskOrDriveSize good_env False) = 3145728"
  by (simp_all add: GetDiskOrDriveSize_def good_env_def)

theorem Initialize_capacity_check_witness:
  "\<not> ((2 :: cint) \<le>s 0 \<or> 64 <s (2 :: cint)) \<and> (1 :: cint) * 1024 * 1024 \<noteq> 0
   \<and> CreateFileW_src_result small_dest_env \<noteq> None
   \<and> CreateFileW_dest_result small_dest_env \<noteq> None
   \<and> fst (GetDiskOrDriveSize small_dest_env False) <s fst (GetDiskOrDriveSize small_dest_env True)
   \<and> fst (Initialize small_dest_env 2 1 BlockCopier_init) = Some DestTooSmall
   \<and> fst (GetDiskOrDriveSize good_env False) = fst (GetDiskOrDriveSize good_env True)
   \<and> fst (Initialize good_env 2 1 BlockCopier_init) \<noteq> Some DestTooSmall"
proof -
  have p: "\<not> ((2 :: cint) \<le>s 0 \<or> 64 <s (2 :: cint))" "(1 :: cint) * 1024 * 1024 \<noteq> 0"
    by (simp_all add: word_sle_eq word_sless_alt)
  have o: "CreateFileW_src_result small_dest_env \<noteq> None"
    "CreateFileW_dest_result small_dest_env \<noteq> None"
    by (simp_all add: small_dest_env_def good_env_def)
  have o': "CreateFileW_src_result good_env \<noteq> None" "CreateFileW_dest_result good_env \<noteq> None"
    by (simp_all add: good_env_def)
  have lt: "fst (GetDiskOrDriveSize small_dest_env False) <s fst (GetDiskOrDriveSize small_dest_env True)"
    by (simp add: small_dest_sizes word_sless_alt)
  have nz: "fst (GetDiskOrDriveSize small_dest_env True) \<noteq> 0"
    "fst (GetDiskOrDriveSize small_dest_env False) \<noteq> 0"
    by (simp_all add: small_dest_sizes)
  have eq: "fst (GetDiskOrDriveSize good_env False) = fst (GetDiskOrDriveSize good_env True)"
    by (simp add: good_env_sizes)
  from Initialize_capacity_check [OF p o, of BlockCopier_init] lt nz
  have a: "fst (Initialize small_dest_env 2 1 BlockCopier_init) = Some DestTooSmall"
    by blast
  from Initialize_capacity_check [OF p o', of BlockCopier_init] eq
  have b: "fst (Initialize good_env 2 1 BlockCopier_init) \<noteq> Some DestTooSmall"
    by blast
  from p o lt a eq b show ?thesis by blast
qed

lemma blockSize_exact:
  fixes blockSizeMB :: cint
  assumes "0 < sint blockSizeMB" and "sint blockSizeMB < 4096"
  shows "uint (blockSizeMB * 1024 * 1024 :: DWORD) = sint blockSizeMB * 2 ^ 20"
proof -
  have "blockSizeMB * 1024 * 1024 = word_of_int (sint blockSizeMB * 1048576)"
    by simp
  then have "uint (blockSizeMB * 1024 * 1024) = take_bit 32 (sint blockSizeMB * 1048576)"
    by (simp only: uint_word_of_int_eq) simp
  also have "\<dots> = sint blockSizeMB * 1048576"
    by (rule take_bit_int_eq_self) (use assms in simp_all)
  finally show ?thesis by simp
qed

text \<open>
  Claim C9 at the failing input. The block size in bytes is the product in 32 bits. It
  is \<open>blockSizeMB * 2^20\<close> up to 4095 MB (\<open>blockSize_exact\<close>); 4096 gives 0 and is rejected;
  4097 is accepted with a block size of 1 MiB, not 4097 MiB.
\<close>

theorem blockSize_wraps_at_4097:
  "\<not> (4097 :: cint) \<le>s 0
   \<and> fst (Initialize good_env 4 4097 BlockCopier_init) = None
   \<and> m_blockSize (fst (snd (Initialize good_env 4 4097 BlockCopier_init))) = 1048576
   \<and> uint (m_blockSize (fst (snd (Initialize good_env 4 4097 BlockCopier_init)))) \<noteq> 4097 * 2 ^ 20
   \<and> fst (Initialize good_env 4 4096 BlockCopier_init) = Some InvalidBlockSize"
proof -
  have a: "\<not> (4097 :: cint) \<le>s 0" by (simp add: word_sle_eq)
  have b: "fst (Initialize good_env 4 4097 BlockCopier_init) = None"
    by (simp add: Initialize_defs good_env_def)
  have c: "m_blockSize (fst (snd (Initialize good_env 4 4097 BlockCopier_init))) = 1048576"
    by (simp add: Initialize_defs good_env_def)
  have d: "fst (Initialize good_env 4 4096 BlockCopier_init) = Some InvalidBlockSize"
    by (simp add: Initialize_defs good_env_def)
  from a b c d show ?thesis by simp
qed

subsection \<open>Padding in the read-completion handler\<close>

lemma round_up_dvd: "s dvd round_up n s"
  by (simp add: round_up_def)

lemma round_up_ge:
  assumes "0 < s"
  shows "n \<le> round_up n s"
proof -
  have "(n + s - 1) mod s < s" using assms by simp
  moreover have "round_up n s + (n + s - 1) mod s = n + s - 1"
    by (simp add: round_up_def)
  ultimately show ?thesis by linarith
qed

lemma round_up_least:
  assumes "0 < s" and "s dvd m" and "n \<le> m"
  shows "round_up n s \<le> m"
proof -
  from assms(2) obtain k where m: "m = k * s" by (auto simp: dvd_def mult.commute)
  have "n + s - 1 < (k + 1) * s" using assms(1,3) m by simp
  then have "(n + s - 1) div s < k + 1"
    using assms(1) by (simp add: div_less_iff_less_mult)
  then have "(n + s - 1) div s \<le> k" by simp
  then show ?thesis unfolding round_up_def m by (rule mult_le_mono1)
qed

lemma round_up_unique:
  assumes s: "0 < s" and dv: "s dvd p" and ge: "n \<le> p" and lt: "p < n + s"
  shows "round_up n s = p"
proof -
  have le: "round_up n s \<le> p" by (rule round_up_least [OF s dv ge])
  have "s dvd p - round_up n s" using dv round_up_dvd by (rule dvd_diff_nat)
  moreover have "p - round_up n s < s" using round_up_ge [OF s, of n] lt le by linarith
  ultimately have "p - round_up n s = 0" by (meson dvd_imp_le not_le zero_less_iff_neq_zero)
  with le show ?thesis by simp
qed

lemma round_up_code:
  assumes "0 < s"
  shows "round_up n s = (if n mod s = 0 then n else n + (s - n mod s))"
proof (cases "n mod s = 0")
  case True
  then have "round_up n s = n" by (intro round_up_unique assms) (use assms in auto)
  with True show ?thesis by simp
next
  case False
  have r: "n mod s < s" using assms by simp
  have "n + (s - n mod s) = (n div s) * s + s"
    using r div_mult_mod_eq [of n s] by linarith
  then have "s dvd n + (s - n mod s)" by simp
  moreover have "n + (s - n mod s) < n + s" using False r by linarith
  moreover have "n \<le> n + (s - n mod s)" by linarith
  ultimately have "round_up n s = n + (s - n mod s)"
    by (intro round_up_unique assms)
  with False show ?thesis by simp
qed

lemma DWORD_padding:
  fixes n s B :: DWORD
  assumes s: "s \<noteq> 0" and dv: "unat s dvd unat B" and le: "n \<le> B" and r: "n mod s \<noteq> 0"
  shows "unat (s - n mod s) = round_up (unat n) (unat s) - unat n"
    and "unat (n + (s - n mod s)) = round_up (unat n) (unat s)"
    and "\<not> B < n + (s - n mod s)"
proof -
  have S: "0 < unat s" using s by (simp add: unat_gt_0)
  have m: "unat (n mod s) = unat n mod unat s" by (simp add: unat_mod)
  have r': "unat n mod unat s \<noteq> 0"
    using r m by (metis unat_eq_zero)
  have lt: "unat n mod unat s < unat s" using S by simp
  have "n mod s \<le> s" using lt m by (simp add: word_le_nat_alt)
  then have p: "unat (s - n mod s) = unat s - unat n mod unat s"
    by (simp add: unat_sub m)
  have ru: "round_up (unat n) (unat s) = unat n + (unat s - unat n mod unat s)"
    using round_up_code [OF S, of "unat n"] r' by simp
  from p ru show "unat (s - n mod s) = round_up (unat n) (unat s) - unat n" by simp
  have "unat n \<le> unat B" using le by (simp add: word_le_nat_alt)
  then have bound: "round_up (unat n) (unat s) \<le> unat B"
    by (rule round_up_least [OF S dv])
  have "unat B < 2 ^ LENGTH(32)" by (rule unsigned_less)
  with bound ru p have "unat n + unat (s - n mod s) < 2 ^ LENGTH(32)" by linarith
  then have a: "unat (n + (s - n mod s)) = unat n + unat (s - n mod s)"
    by (rule unat_add_lem [THEN iffD1])
  with p ru show u: "unat (n + (s - n mod s)) = round_up (unat n) (unat s)" by simp
  with bound show "\<not> B < n + (s - n mod s)" by (simp add: word_less_nat_alt)
qed

lemma DWORD_no_padding:
  fixes n s :: DWORD
  assumes s: "s \<noteq> 0" and r: "n mod s = 0"
  shows "round_up (unat n) (unat s) = unat n"
proof -
  have S: "0 < unat s" using s by (simp add: unat_gt_0)
  have "unat n mod unat s = 0" using r by (metis unat_mod unat_0)
  then show ?thesis using round_up_code [OF S, of "unat n"] by simp
qed

lemma memset0_inside:
  assumes "off + len \<le> length b"
  shows "memset0 b off len = take off b @ replicate len 0 @ drop (off + len) b"
  using assms by (simp add: memset0_def min_def)

lemma OnReadCompletion_pad_eq:
  assumes s: "s \<noteq> 0"
    and dv: "unat s dvd unat (bufSize cntxt)" and le: "n \<le> bufSize cntxt"
    and len: "length (buf cntxt) = unat (bufSize cntxt)"
  shows "OnReadCompletion_pad wr s n cntxt ev0 e =
     OnReadCompletion_write wr (word_of_nat (round_up (unat n) (unat s)))
       (cntxt\<lparr>buf := take (unat n) (buf cntxt)
                       @ replicate (round_up (unat n) (unat s) - unat n) 0
                       @ drop (round_up (unat n) (unat s)) (buf cntxt)\<rparr>)
       ev0 e"
proof (cases "n mod s = 0")
  case True
  have P: "round_up (unat n) (unat s) = unat n"
    by (rule DWORD_no_padding [OF s True])
  show ?thesis
    using True by (simp add: OnReadCompletion_pad_def P)
next
  case False
  note pd = DWORD_padding [OF s dv le False]
  have S: "0 < unat s" using s by (simp add: unat_gt_0)
  have ge: "unat n \<le> round_up (unat n) (unat s)"
    using S by (rule round_up_ge)
  have inside: "unat n + unat (s - n mod s) \<le> length (buf cntxt)"
  proof -
    have "unat n \<le> unat (bufSize cntxt)" using le by (simp add: word_le_nat_alt)
    then have "round_up (unat n) (unat s) \<le> unat (bufSize cntxt)"
      by (rule round_up_least [OF S dv])
    then show ?thesis using pd(1) len ge by linarith
  qed
  have "word_of_nat (unat (n + (s - n mod s))) = n + (s - n mod s)" by simp
  then have w: "n + (s - n mod s) = word_of_nat (round_up (unat n) (unat s))"
    unfolding pd(2) by simp
  have ms: "memset0 (buf cntxt) (unat n) (unat (s - n mod s))
      = take (unat n) (buf cntxt) @ replicate (round_up (unat n) (unat s) - unat n) 0
        @ drop (round_up (unat n) (unat s)) (buf cntxt)"
    using memset0_inside [OF inside] pd(1) ge by simp
  have noflag: "\<not> length (buf cntxt) < unat n + unat (s - n mod s)"
    using inside by simp
  show ?thesis
    using False pd(3) noflag
    by (simp add: OnReadCompletion_pad_def Let_def ms w)
qed

lemma OnReadCompletion_success:
  assumes "curInst cntxt" and "n \<noteq> 0"
  shows "OnReadCompletion wr ERROR_SUCCESS n (Some cntxt) e =
     OnReadCompletion_pad wr (if m_destSectorSize e = 0 then 4096 else m_destSectorSize e) n cntxt
       (if m_destSectorSize e = 0 then [LogWarning] else [])
       ((setPendingIOs (getPendingIOs e - 1) e)
          \<lparr>m_bytesReadTotal := m_bytesReadTotal e + ucast n\<rparr>)"
  using assms
  by (simp add: OnReadCompletion_def Let_def ERROR_SUCCESS_def setPendingIOs_def)


lemma OnReadCompletion_write_context:
  "\<exists>c'. fst (snd (OnReadCompletion_write wr p c ev e)) = Some c'
         \<and> bytesTransferred c' = p \<and> buf c' = buf c"
  by (cases wr) (auto simp: OnReadCompletion_write_def IssueWrite_def IssueWrite_prepare_def Let_def)

lemma OnReadCompletion_write_error:
  "getErrorOccuredInfo (fst (OnReadCompletion_write wr p c ev e))
     = (getErrorOccuredInfo e \<or> wr \<noteq> Queued)"
  by (cases wr)
     (auto simp: OnReadCompletion_write_def IssueWrite_def IssueWrite_prepare_def Let_def
        getErrorOccuredInfo_def setErrorOccuredInfo_def)

lemma OnReadCompletion_write_events:
  "MemsetOutOfRange \<notin> set ev \<Longrightarrow>
     MemsetOutOfRange \<notin> set (snd (snd (OnReadCompletion_write wr p c ev e)))"
  by (cases wr) (auto simp: OnReadCompletion_write_def IssueWrite_def IssueWrite_prepare_def Let_def)

lemma word_of_nat_round_up:
  fixes n s B :: DWORD
  assumes s: "s \<noteq> 0" and dv: "unat s dvd unat B" and le: "n \<le> B"
  shows "unat (word_of_nat (round_up (unat n) (unat s)) :: DWORD) = round_up (unat n) (unat s)"
    and "round_up (unat n) (unat s) \<le> unat B"
proof -
  have S: "0 < unat s" using s by (simp add: unat_gt_0)
  have "unat n \<le> unat B" using le by (simp add: word_le_nat_alt)
  then show b: "round_up (unat n) (unat s) \<le> unat B"
    by (rule round_up_least [OF S dv])
  have "unat B < 2 ^ LENGTH(32)" by (rule unsigned_less)
  with b have "round_up (unat n) (unat s) < 2 ^ LENGTH(32)" by linarith
  then show "unat (word_of_nat (round_up (unat n) (unat s)) :: DWORD) = round_up (unat n) (unat s)"
    by (simp add: unat_of_nat)
qed

text \<open>
  Claim C3 (padding). A read of \<open>n > 0\<close> bytes completes with success on a valid context
  whose buffer has \<open>bufSize\<close> bytes, the sector size \<open>s\<close> is not 0 and divides \<open>bufSize\<close>, and
  \<open>n \<le> bufSize\<close>. Then the handler does not take the exit for a padded length that
  exceeds the buffer: it goes on to issue the write (its error latch ends up set only
  if it was set before or the write is refused). The length it stores in the context
  and writes is \<open>n\<close> rounded up to the next multiple of \<open>s\<close>, that is the least multiple of
  \<open>s\<close> that is at least \<open>n\<close>; it fits the buffer, the buffer keeps its first \<open>n\<close> bytes, and
  its bytes from \<open>n\<close> up to the padded length are zero. No \<open>memset\<close> leaves the buffer.
\<close>

theorem OnReadCompletion_padding:
  assumes valid: "curInst cntxt" and n: "n \<noteq> 0" and s: "m_destSectorSize e \<noteq> 0"
    and dv: "unat (m_destSectorSize e) dvd unat (bufSize cntxt)" and le: "n \<le> bufSize cntxt"
    and len: "length (buf cntxt) = unat (bufSize cntxt)"
  shows "let s = unat (m_destSectorSize e);
             padded = round_up (unat n) s;
             c1 = cntxt\<lparr>buf := take (unat n) (buf cntxt) @ replicate (padded - unat n) 0
                                 @ drop padded (buf cntxt)\<rparr>;
             e2 = (setPendingIOs (getPendingIOs e - 1) e)
                    \<lparr>m_bytesReadTotal := m_bytesReadTotal e + ucast n\<rparr>
         in OnReadCompletion wr ERROR_SUCCESS n (Some cntxt) e
              = OnReadCompletion_write wr (word_of_nat padded) c1 [] e2
          \<and> unat (word_of_nat padded :: DWORD) = padded
          \<and> s dvd padded \<and> unat n \<le> padded \<and> (\<forall>m. s dvd m \<and> unat n \<le> m \<longrightarrow> padded \<le> m)
          \<and> padded \<le> unat (bufSize cntxt)
          \<and> length (buf c1) = length (buf cntxt)
          \<and> (\<forall>i. unat n \<le> i \<and> i < padded \<longrightarrow> buf c1 ! i = 0)
          \<and> (\<exists>c'. fst (snd (OnReadCompletion wr ERROR_SUCCESS n (Some cntxt) e)) = Some c'
                  \<and> bytesTransferred c' = word_of_nat padded \<and> buf c' = buf c1)
          \<and> MemsetOutOfRange \<notin> set (snd (snd (OnReadCompletion wr ERROR_SUCCESS n (Some cntxt) e)))
          \<and> (getErrorOccuredInfo (fst (OnReadCompletion wr ERROR_SUCCESS n (Some cntxt) e))
               \<longleftrightarrow> getErrorOccuredInfo e \<or> wr \<noteq> Queued)"
proof -
  define S where "S = unat (m_destSectorSize e)"
  define P where "P = round_up (unat n) S"
  define c1 where "c1 = cntxt\<lparr>buf := take (unat n) (buf cntxt) @ replicate (P - unat n) 0
                                 @ drop P (buf cntxt)\<rparr>"
  define e2 where "e2 = (setPendingIOs (getPendingIOs e - 1) e)
                    \<lparr>m_bytesReadTotal := m_bytesReadTotal e + ucast n\<rparr>"
  have Spos: "0 < S" using s by (simp add: S_def unat_gt_0)
  have eq: "OnReadCompletion wr ERROR_SUCCESS n (Some cntxt) e
              = OnReadCompletion_write wr (word_of_nat P) c1 [] e2"
    unfolding OnReadCompletion_success [OF valid n]
    using s OnReadCompletion_pad_eq [OF s dv le len, where wr = wr and ?ev0.0 = "[]" and e = e2]
    by (simp add: P_def S_def c1_def e2_def)
  have wp: "unat (word_of_nat P :: DWORD) = P" "P \<le> unat (bufSize cntxt)"
    using word_of_nat_round_up [OF s dv le] unfolding P_def S_def by simp_all
  have ge: "unat n \<le> P" unfolding P_def using Spos by (rule round_up_ge)
  have dvd: "S dvd P" unfolding P_def by (rule round_up_dvd)
  have least: "\<forall>m. S dvd m \<and> unat n \<le> m \<longrightarrow> P \<le> m"
    unfolding P_def using round_up_least [OF Spos] by blast
  have l1: "length (buf c1) = length (buf cntxt)"
    using wp(2) ge len by (simp add: c1_def)
  have z: "\<forall>i. unat n \<le> i \<and> i < P \<longrightarrow> buf c1 ! i = 0"
  proof (intro allI impI)
    fix i assume i: "unat n \<le> i \<and> i < P"
    have "unat n \<le> length (buf cntxt)" using wp(2) ge len by linarith
    then have "length (take (unat n) (buf cntxt)) = unat n" by simp
    then have "buf c1 ! i = (replicate (P - unat n) 0 @ drop P (buf cntxt)) ! (i - unat n)"
      using i by (simp add: c1_def nth_append)
    also have "\<dots> = 0"
    proof -
      have "i - unat n < P - unat n" using i by linarith
      then show ?thesis by (simp add: nth_append)
    qed
    finally show "buf c1 ! i = 0" .
  qed
  have cx: "\<exists>c'. fst (snd (OnReadCompletion wr ERROR_SUCCESS n (Some cntxt) e)) = Some c'
                  \<and> bytesTransferred c' = word_of_nat P \<and> buf c' = buf c1"
    unfolding eq by (rule OnReadCompletion_write_context)
  have ev: "MemsetOutOfRange \<notin> set (snd (snd (OnReadCompletion wr ERROR_SUCCESS n (Some cntxt) e)))"
    unfolding eq by (rule OnReadCompletion_write_events) simp
  have err: "getErrorOccuredInfo (fst (OnReadCompletion wr ERROR_SUCCESS n (Some cntxt) e))
               \<longleftrightarrow> getErrorOccuredInfo e \<or> wr \<noteq> Queued"
    unfolding eq OnReadCompletion_write_error
    by (simp add: e2_def getErrorOccuredInfo_def setPendingIOs_def)
  from eq wp dvd ge least l1 z cx ev err show ?thesis
    unfolding Let_def S_def [symmetric] P_def [symmetric] c1_def [symmetric] e2_def [symmetric]
    by blast
qed


lemma OnReadCompletion_sector_0_as_4096:
  assumes valid: "curInst cntxt" and n: "n \<noteq> 0" and s0: "m_destSectorSize e = 0"
  shows "OnReadCompletion wr ERROR_SUCCESS n (Some cntxt) e =
           (case OnReadCompletion wr ERROR_SUCCESS n (Some cntxt) (e\<lparr>m_destSectorSize := 4096\<rparr>) of
              (e', c', ev) \<Rightarrow> (e'\<lparr>m_destSectorSize := 0\<rparr>, c', LogWarning # ev))"
  using assms
  by (cases wr)
     (auto simp: OnReadCompletion_def OnReadCompletion_pad_def OnReadCompletion_write_def
        IssueWrite_def IssueWrite_prepare_def Let_def ERROR_SUCCESS_def
        getErrorOccuredInfo_def getReadCompleteInfo_def getPendingIOs_def
        setErrorOccuredInfo_def setReadCompleteInfo_def setPendingIOs_def)


lemma OnReadCompletion_write_first_event:
  "hd (snd (snd (OnReadCompletion_write wr p c (a # ev) e))) = a"
  by (cases wr) (auto simp: OnReadCompletion_write_def IssueWrite_def IssueWrite_prepare_def Let_def)

text \<open>
  Claim C10 (sector-size fallback). When the engine's sector size is 0 and a read of
  \<open>n > 0\<close> bytes completes with success, the handler behaves exactly as with a sector
  size of 4096, except that it logs a warning first: no exit is taken because of the
  0. If the buffer's size is a multiple of 4096 and \<open>n\<close> fits it, the write length is
  \<open>n\<close> rounded up to a multiple of 4096.
\<close>

theorem OnReadCompletion_sector_fallback:
  assumes valid: "curInst cntxt" and n: "n \<noteq> 0" and s0: "m_destSectorSize e = 0"
  shows "OnReadCompletion wr ERROR_SUCCESS n (Some cntxt) e =
           (case OnReadCompletion wr ERROR_SUCCESS n (Some cntxt) (e\<lparr>m_destSectorSize := 4096\<rparr>) of
              (e', c', ev) \<Rightarrow> (e'\<lparr>m_destSectorSize := 0\<rparr>, c', LogWarning # ev))
       \<and> (4096 dvd unat (bufSize cntxt) \<and> n \<le> bufSize cntxt
            \<and> length (buf cntxt) = unat (bufSize cntxt) \<longrightarrow>
            (\<exists>c'. fst (snd (OnReadCompletion wr ERROR_SUCCESS n (Some cntxt) e)) = Some c'
                  \<and> unat (bytesTransferred c') = round_up (unat n) 4096)
          \<and> 4096 dvd round_up (unat n) 4096 \<and> unat n \<le> round_up (unat n) 4096
          \<and> (getErrorOccuredInfo (fst (OnReadCompletion wr ERROR_SUCCESS n (Some cntxt) e))
               \<longleftrightarrow> getErrorOccuredInfo e \<or> wr \<noteq> Queued)
          \<and> hd (snd (snd (OnReadCompletion wr ERROR_SUCCESS n (Some cntxt) e))) = LogWarning)"
proof (intro conjI impI)
  show "OnReadCompletion wr ERROR_SUCCESS n (Some cntxt) e =
           (case OnReadCompletion wr ERROR_SUCCESS n (Some cntxt) (e\<lparr>m_destSectorSize := 4096\<rparr>) of
              (e', c', ev) \<Rightarrow> (e'\<lparr>m_destSectorSize := 0\<rparr>, c', LogWarning # ev))"
    by (rule OnReadCompletion_sector_0_as_4096 [OF assms])
next
  show "4096 dvd round_up (unat n) 4096" by (rule round_up_dvd)
next
  show "unat n \<le> round_up (unat n) 4096" by (rule round_up_ge) simp
next
  assume a: "4096 dvd unat (bufSize cntxt) \<and> n \<le> bufSize cntxt
            \<and> length (buf cntxt) = unat (bufSize cntxt)"
  define e2 where "e2 = (setPendingIOs (getPendingIOs e - 1) e)
                    \<lparr>m_bytesReadTotal := m_bytesReadTotal e + ucast n\<rparr>"
  define c1 where "c1 = cntxt\<lparr>buf := take (unat n) (buf cntxt)
                       @ replicate (round_up (unat n) 4096 - unat n) 0
                       @ drop (round_up (unat n) 4096) (buf cntxt)\<rparr>"
  have nz: "(4096 :: DWORD) \<noteq> 0" by simp
  have dv: "unat (4096 :: DWORD) dvd unat (bufSize cntxt)" using a by simp
  have le: "n \<le> bufSize cntxt" and len: "length (buf cntxt) = unat (bufSize cntxt)"
    using a by simp_all
  have eq: "OnReadCompletion wr ERROR_SUCCESS n (Some cntxt) e
              = OnReadCompletion_write wr (word_of_nat (round_up (unat n) 4096)) c1 [LogWarning] e2"
    unfolding OnReadCompletion_success [OF valid n]
    using s0 OnReadCompletion_pad_eq [OF nz dv le len, where wr = wr and ?ev0.0 = "[LogWarning]"
        and e = e2]
    by (simp add: c1_def e2_def)
  have u: "unat (word_of_nat (round_up (unat n) 4096) :: DWORD) = round_up (unat n) 4096"
    using word_of_nat_round_up(1) [OF nz dv le] by simp
  from OnReadCompletion_write_context [of wr "word_of_nat (round_up (unat n) 4096)" c1
      "[LogWarning]" e2] u
  show "\<exists>c'. fst (snd (OnReadCompletion wr ERROR_SUCCESS n (Some cntxt) e)) = Some c'
                  \<and> unat (bytesTransferred c') = round_up (unat n) 4096"
    unfolding eq by auto
  show "getErrorOccuredInfo (fst (OnReadCompletion wr ERROR_SUCCESS n (Some cntxt) e))
               \<longleftrightarrow> getErrorOccuredInfo e \<or> wr \<noteq> Queued"
    unfolding eq OnReadCompletion_write_error
    by (simp add: e2_def getErrorOccuredInfo_def setPendingIOs_def)
  show "hd (snd (snd (OnReadCompletion wr ERROR_SUCCESS n (Some cntxt) e))) = LogWarning"
    unfolding eq by (rule OnReadCompletion_write_first_event)
qed


lemma busy_context_fields:
  "curInst busy_context" "bufSize busy_context = 1048576"
  "length (buf busy_context) = 1048576"
  by (simp_all add: busy_context_def IOContext_new_def)

lemma running_engine_sector: "m_destSectorSize running_engine = 4096"
  by (simp add: running_engine_def ready_engine_fields)

lemma running_engine_no_error: "\<not> getErrorOccuredInfo running_engine"
  by (simp add: running_engine_def running_state_def getErrorOccuredInfo_def)

lemma round_up_777: "round_up 777 4096 = 4096"
  by (simp add: round_up_def)

theorem OnReadCompletion_padding_witness:
  "curInst busy_context \<and> (777 :: DWORD) \<noteq> 0 \<and> m_destSectorSize running_engine \<noteq> 0
   \<and> unat (m_destSectorSize running_engine) dvd unat (bufSize busy_context)
   \<and> (777 :: DWORD) \<le> bufSize busy_context
   \<and> length (buf busy_context) = unat (bufSize busy_context)
   \<and> round_up 777 4096 = 4096
   \<and> (\<exists>c'. fst (snd (OnReadCompletion Queued ERROR_SUCCESS 777 (Some busy_context) running_engine))
              = Some c' \<and> bytesTransferred c' = 4096)
   \<and> \<not> getErrorOccuredInfo
         (fst (OnReadCompletion Queued ERROR_SUCCESS 777 (Some busy_context) running_engine))"
proof -
  have h2: "(777 :: DWORD) \<noteq> 0" by simp
  have h3: "m_destSectorSize running_engine \<noteq> 0" by (simp add: running_engine_sector)
  have h4: "unat (m_destSectorSize running_engine) dvd unat (bufSize busy_context)"
    by (simp add: running_engine_sector busy_context_fields)
  have h5: "(777 :: DWORD) \<le> bufSize busy_context" by (simp add: busy_context_fields)
  have h6: "length (buf busy_context) = unat (bufSize busy_context)"
    by (simp add: busy_context_fields)
  note t = OnReadCompletion_padding [OF busy_context_fields(1) h2 h3 h4 h5 h6, of Queued,
      unfolded Let_def]
  have p: "round_up (unat (777 :: DWORD)) (unat (m_destSectorSize running_engine)) = 4096"
    by (simp add: running_engine_sector round_up_777)
  from t have "\<exists>c'. fst (snd (OnReadCompletion Queued ERROR_SUCCESS 777 (Some busy_context)
                  running_engine)) = Some c' \<and> bytesTransferred c' = 4096"
    unfolding p by auto
  moreover from t have "\<not> getErrorOccuredInfo
         (fst (OnReadCompletion Queued ERROR_SUCCESS 777 (Some busy_context) running_engine))"
    using running_engine_no_error by blast
  ultimately show ?thesis
    using busy_context_fields(1) h2 h3 h4 h5 h6 round_up_777 by blast
qed


theorem OnReadCompletion_sector_fallback_witness:
  "curInst busy_context \<and> (777 :: DWORD) \<noteq> 0 \<and> m_destSectorSize sectorless_engine = 0
   \<and> 4096 dvd unat (bufSize busy_context) \<and> (777 :: DWORD) \<le> bufSize busy_context
   \<and> length (buf busy_context) = unat (bufSize busy_context)
   \<and> (\<exists>c'. fst (snd (OnReadCompletion Queued ERROR_SUCCESS 777 (Some busy_context)
                         sectorless_engine)) = Some c'
             \<and> unat (bytesTransferred c') = 4096)
   \<and> hd (snd (snd (OnReadCompletion Queued ERROR_SUCCESS 777 (Some busy_context)
                     sectorless_engine))) = LogWarning
   \<and> \<not> getErrorOccuredInfo
         (fst (OnReadCompletion Queued ERROR_SUCCESS 777 (Some busy_context) sectorless_engine))"
proof -
  have h2: "(777 :: DWORD) \<noteq> 0" by simp
  have h3: "m_destSectorSize sectorless_engine = 0" by (simp add: sectorless_engine_def)
  have h4: "4096 dvd unat (bufSize busy_context) \<and> (777 :: DWORD) \<le> bufSize busy_context
              \<and> length (buf busy_context) = unat (bufSize busy_context)"
    by (simp add: busy_context_fields)
  have ne: "\<not> getErrorOccuredInfo sectorless_engine"
    using running_engine_no_error by (simp add: sectorless_engine_def getErrorOccuredInfo_def)
  note t = OnReadCompletion_sector_fallback [OF busy_context_fields(1) h2 h3, of Queued,
      THEN conjunct2, rule_format, OF h4]
  from t have "\<exists>c'. fst (snd (OnReadCompletion Queued ERROR_SUCCESS 777 (Some busy_context)
                         sectorless_engine)) = Some c'
             \<and> unat (bytesTransferred c') = 4096"
    by (simp add: round_up_777)
  moreover from t
  have "hd (snd (snd (OnReadCompletion Queued ERROR_SUCCESS 777 (Some busy_context)
                     sectorless_engine))) = LogWarning"
    by blast
  moreover from t ne
  have "\<not> getErrorOccuredInfo
         (fst (OnReadCompletion Queued ERROR_SUCCESS 777 (Some busy_context) sectorless_engine))"
    by blast
  ultimately show ?thesis using busy_context_fields(1) h2 h3 h4 by blast
qed

end
